theory Spec2Isabelle
  imports Complex_Main "HOL-Library.Monad_Syntax"
begin

section \<open>Two-dimensional arrays\<close>

text \<open>
  The notebooks compute on NumPy arrays of rank two. An array of shape \<open>(r, c)\<close> with
  \<open>r \<ge> 1\<close> is the list of its \<open>r\<close> rows, each a list of \<open>c\<close> entries. Floating-point
  entries are read as real numbers, integer entries as integers. An operation that NumPy
  rejects with \<open>ValueError\<close> (operands whose shapes do not fit) returns \<open>None\<close>.
\<close>

type_synonym 'a array2 = "'a list list"

definition elementwise :: "('a \<Rightarrow> 'b) \<Rightarrow> 'a array2 \<Rightarrow> 'b array2" where
  "elementwise f A = map (map f) A"

text \<open>
  Broadcasting of two shapes, one axis at a time: two extents fit when they are equal or
  when one of them is 1, and the extent 1 is then repeated.
\<close>

definition bdim :: "nat \<Rightarrow> nat \<Rightarrow> nat option" where
  "bdim m n = (if m = n then Some m else if m = 1 then Some n
               else if n = 1 then Some m else None)"

definition stretch :: "nat \<Rightarrow> 'a list \<Rightarrow> 'a list" where
  "stretch n xs = (if length xs = n then xs else replicate n (hd xs))"

definition broadcast_row :: "('a \<Rightarrow> 'b \<Rightarrow> 'c) \<Rightarrow> 'a list \<Rightarrow> 'b list \<Rightarrow> 'c list option" where
  "broadcast_row f r s =
     (case bdim (length r) (length s) of
        None \<Rightarrow> None
      | Some c \<Rightarrow> Some (map2 f (stretch c r) (stretch c s)))"

definition broadcast :: "('a \<Rightarrow> 'b \<Rightarrow> 'c) \<Rightarrow> 'a array2 \<Rightarrow> 'b array2 \<Rightarrow> 'c array2 option" where
  "broadcast f A B =
     (case bdim (length A) (length B) of
        None \<Rightarrow> None
      | Some r \<Rightarrow> those (map2 (broadcast_row f) (stretch r A) (stretch r B)))"

text \<open>\<open>A += B\<close>: the sum is stored back into \<open>A\<close>, so it must have the shape of \<open>A\<close>.\<close>

definition iadd :: "real array2 \<Rightarrow> real array2 \<Rightarrow> real array2 option" where
  "iadd A B =
     (case broadcast (+) A B of
        None \<Rightarrow> None
      | Some C \<Rightarrow> if map length C = map length A then Some C else None)"

text \<open>\<open>np.dot(A, B)\<close> on rank-two arrays is the matrix product; every row of \<open>A\<close> must
  be as long as \<open>B\<close> has rows.\<close>

definition dot :: "real array2 \<Rightarrow> real array2 \<Rightarrow> real array2 option" where
  "dot A B =
     (if list_all (\<lambda>r. length r = length B) A
      then Some (map (\<lambda>r. map (\<lambda>c. sum_list (map2 (*) r c)) (transpose B)) A)
      else None)"

text \<open>\<open>np.sum(A, axis=0, keepdims=True)\<close>: one row holding the sum of every column.\<close>

definition sum_axis0 :: "real array2 \<Rightarrow> real array2" where
  "sum_axis0 A = [map sum_list (transpose A)]"

text \<open>\<open>np.mean(A)\<close> over all entries. On an array without entries NumPy yields \<open>nan\<close>,
  which is no real number: \<open>None\<close>.\<close>

definition mean :: "real array2 \<Rightarrow> real option" where
  "mean A = (if concat A = [] then None
             else Some (sum_list (concat A) / real (length (concat A))))"

definition square :: "real \<Rightarrow> real" where
  "square v = v * v"

section \<open>The XOR network written by hand\<close>

text \<open>
  The two activation functions of the notebook, on real numbers. The notebook computes
  them in 64-bit floating point, where \<open>1 / (1 + np.exp(-x))\<close> rounds to exactly 1.0 for
  \<open>x\<close> from about 37 upwards and is 0.0 once \<open>np.exp(-x)\<close> overflows; what is proved
  below about \<open>sigmoid\<close> is about the real function and the exact arithmetic of the
  network, not about the rounded values.
\<close>

definition sigmoid :: "real \<Rightarrow> real" where
  "sigmoid x = 1 / (1 + exp (- x))"

definition sigmoid_derivative :: "real \<Rightarrow> real" where
  "sigmoid_derivative x = x * (1 - x)"

text \<open>The training data \<open>X\<close> and \<open>y\<close> of the notebook, integer arrays.\<close>

definition X_xor :: "int array2" where
  "X_xor = [[0, 0], [0, 1], [1, 0], [1, 1]]"

definition y_xor :: "int array2" where
  "y_xor = [[0], [1], [1], [0]]"

definition input_size :: nat where "input_size = 2"
definition hidden_size :: nat where "hidden_size = 2"
definition output_size :: nat where "output_size = 1"

definition learning_rate :: real where "learning_rate = 0.5"
definition epochs :: nat where "epochs = 10000"

text \<open>The four parameter arrays that the loop updates in place.\<close>

record params =
  W1 :: "real array2"
  b1 :: "real array2"
  W2 :: "real array2"
  b2 :: "real array2"

text \<open>The variables that one pass through the loop body leaves behind.\<close>

record epoch_vars =
  hidden_output :: "real array2"
  final_output :: "real array2"
  error :: "real array2"
  loss :: real
  d_output :: "real array2"
  W2_grad :: "real array2"
  b2_grad :: "real array2"
  d_hidden :: "real array2"
  W1_grad :: "real array2"
  b1_grad :: "real array2"
  updated :: params

text \<open>Forward propagation: the first four assignments of the loop body.\<close>

definition forward :: "real array2 \<Rightarrow> params \<Rightarrow> (real array2 \<times> real array2) option" where
  "forward A p = do {
     xw \<leftarrow> dot A (W1 p);
     hidden_input \<leftarrow> broadcast (+) xw (b1 p);
     let hidden_out = elementwise sigmoid hidden_input;
     hw \<leftarrow> dot hidden_out (W2 p);
     final_input \<leftarrow> broadcast (+) hw (b2 p);
     let final_out = elementwise sigmoid final_input;
     Some (hidden_out, final_out)
   }"

text \<open>
  One pass through the body of \<open>for epoch in range(epochs)\<close>, on the data \<open>A\<close>, \<open>t\<close>
  with step size \<open>lr\<close>. The integer arrays are promoted to floating point where they
  meet one (\<open>of_int\<close>). All four gradients are computed before any parameter changes.
  The line that prints the loss every 1000 epochs changes no variable and is left out.
\<close>

definition epoch_body :: "int array2 \<Rightarrow> int array2 \<Rightarrow> real \<Rightarrow> params \<Rightarrow> epoch_vars option" where
  "epoch_body A t lr p = do {
     (hidden_out, final_out) \<leftarrow> forward (elementwise of_int A) p;
     err \<leftarrow> broadcast (\<lambda>a b. of_int a - b) t final_out;
     loss_v \<leftarrow> mean (elementwise square err);
     d_out \<leftarrow> broadcast (*) err (elementwise sigmoid_derivative final_out);
     w2_grad \<leftarrow> dot (transpose hidden_out) d_out;
     let b2_g = sum_axis0 d_out;
     back \<leftarrow> dot d_out (transpose (W2 p));
     d_hid \<leftarrow> broadcast (*) back (elementwise sigmoid_derivative hidden_out);
     w1_grad \<leftarrow> dot (transpose (elementwise of_int A)) d_hid;
     let b1_g = sum_axis0 d_hid;
     w2' \<leftarrow> iadd (W2 p) (elementwise ((*) lr) w2_grad);
     b2' \<leftarrow> iadd (b2 p) (elementwise ((*) lr) b2_g);
     w1' \<leftarrow> iadd (W1 p) (elementwise ((*) lr) w1_grad);
     b1' \<leftarrow> iadd (b1 p) (elementwise ((*) lr) b1_g);
     Some \<lparr>hidden_output = hidden_out, final_output = final_out, error = err,
           loss = loss_v, d_output = d_out, W2_grad = w2_grad, b2_grad = b2_g,
           d_hidden = d_hid, W1_grad = w1_grad, b1_grad = b1_g,
           updated = \<lparr>W1 = w1', b1 = b1', W2 = w2', b2 = b2'\<rparr>\<rparr>
   }"

text \<open>The loop: \<open>n\<close> passes, each starting from the parameters the previous one left.
  The result is the parameters after the last pass together with the \<open>final_output\<close>
  of that pass, if there was one.\<close>

fun training_loop ::
  "nat \<Rightarrow> int array2 \<Rightarrow> int array2 \<Rightarrow> real \<Rightarrow> params \<times> real array2 option
   \<Rightarrow> (params \<times> real array2 option) option" where
  "training_loop 0 A t lr s = Some s"
| "training_loop (Suc n) A t lr s =
     (case epoch_body A t lr (fst s) of
        None \<Rightarrow> None
      | Some v \<Rightarrow> training_loop n A t lr (updated v, Some (final_output v)))"

text \<open>The run of the notebook: \<open>epochs\<close> passes on \<open>X\<close> and \<open>y\<close> with
  \<open>learning_rate\<close>, from the parameters \<open>p0\<close> that the random generator supplied.\<close>

definition xor_numpy_run :: "params \<Rightarrow> (params \<times> real array2 option) option" where
  "xor_numpy_run p0 = training_loop epochs X_xor y_xor learning_rate (p0, None)"

text \<open>
  After the loop the notebook thresholds \<open>final_output\<close> at 0.5 and measures the
  accuracy twice: by hand as \<open>np.mean(predictions == y)\<close>, where a truth value meets an
  integer label as 0 or 1, and through \<open>accuracy_score\<close> on the thresholded outputs
  converted to integers.
\<close>

definition predictions :: "real array2 \<Rightarrow> bool array2" where
  "predictions out = elementwise (\<lambda>v. v \<ge> 0.5) out"

definition accuracy :: "real array2 \<Rightarrow> int array2 \<Rightarrow> real option" where
  "accuracy out t = do {
     hits \<leftarrow> broadcast (\<lambda>b l. (of_bool b :: int) = l) (predictions out) t;
     mean (elementwise of_bool hits)
   }"

definition binary_predictions :: "real array2 \<Rightarrow> int array2" where
  "binary_predictions out = elementwise of_bool (elementwise (\<lambda>v. v \<ge> 0.5) out)"

text \<open>
  \<open>accuracy_score\<close> belongs to scikit-learn, not to the notebooks. Its documented
  contract on integer labels: the fraction of samples whose predicted labels are exactly
  the true labels of the sample; the two arguments must hold the same number of samples,
  at least one.
\<close>

definition accuracy_score :: "int array2 \<Rightarrow> int array2 \<Rightarrow> real option" where
  "accuracy_score y_true y_pred =
     (if length y_true = length y_pred \<and> y_true \<noteq> []
      then Some (real (length (filter (\<lambda>(a, b). a = b) (zip y_true y_pred)))
                 / real (length y_true))
      else None)"

definition accuracy_sk :: "real array2 \<Rightarrow> int array2 \<Rightarrow> real option" where
  "accuracy_sk out t = accuracy_score t (binary_predictions out)"

text \<open>The \<open>final_output\<close> that the notebook printed after its recorded run, to the eight
  decimals shown there.\<close>

definition recorded_final_output :: "real array2" where
  "recorded_final_output =
     [[1930908 / 100000000], [98334504 / 100000000],
      [98334712 / 100000000], [1718199 / 100000000]]"

section \<open>Reference notions\<close>

text \<open>
  The shapes of the notebook's arrays. \<open>W1\<close>, \<open>b1\<close>, \<open>W2\<close>, \<open>b2\<close> are created with the
  shapes \<open>(input_size, hidden_size)\<close>, \<open>(1, hidden_size)\<close>, \<open>(hidden_size, output_size)\<close>
  and \<open>(1, output_size)\<close>; \<open>xor_params\<close> writes such parameters entry by entry.
\<close>

definition has_shape :: "nat \<Rightarrow> nat \<Rightarrow> 'a array2 \<Rightarrow> bool" where
  "has_shape r c A \<longleftrightarrow> length A = r \<and> list_all (\<lambda>row. length row = c) A"

definition xor_shaped :: "params \<Rightarrow> bool" where
  "xor_shaped p \<longleftrightarrow>
     has_shape input_size hidden_size (W1 p) \<and> has_shape 1 hidden_size (b1 p)
     \<and> has_shape hidden_size output_size (W2 p) \<and> has_shape 1 output_size (b2 p)"

definition xor_params ::
  "real \<Rightarrow> real \<Rightarrow> real \<Rightarrow> real \<Rightarrow> real \<Rightarrow> real \<Rightarrow> real \<Rightarrow> real \<Rightarrow> real \<Rightarrow> params" where
  "xor_params w11 w12 w21 w22 b11 b12 v1 v2 c =
     \<lparr>W1 = [[w11, w12], [w21, w22]], b1 = [[b11, b12]], W2 = [[v1], [v2]], b2 = [[c]]\<rparr>"

text \<open>
  The two-layer network as a formula on one input row \<open>(x1, x2)\<close>: a weighted sum with
  bias and a sigmoid for each of the two hidden units, and once more for the output.
\<close>

definition hidden_unit :: "params \<Rightarrow> nat \<Rightarrow> real list \<Rightarrow> real" where
  "hidden_unit p j r =
     sigmoid (r ! 0 * (W1 p ! 0 ! j) + r ! 1 * (W1 p ! 1 ! j) + b1 p ! 0 ! j)"

definition network_output :: "params \<Rightarrow> real list \<Rightarrow> real" where
  "network_output p r =
     sigmoid (hidden_unit p 0 r * (W2 p ! 0 ! 0) + hidden_unit p 1 r * (W2 p ! 1 ! 0)
              + b2 p ! 0 ! 0)"

text \<open>
  The loss as a function of the parameters: the mean, over the rows of the training data,
  of the squared difference between the label of the row and the output of the network
  on the row.
\<close>

definition mean_squared_error :: "int array2 \<Rightarrow> int array2 \<Rightarrow> params \<Rightarrow> real" where
  "mean_squared_error A t p =
     sum_list (map2 (\<lambda>r l. (of_int (l ! 0) - network_output p (map of_int r))\<^sup>2) A t)
     / real (length A)"

text \<open>The four binary input pairs.\<close>

definition four_pairs :: "real array2" where
  "four_pairs = [[0, 0], [0, 1], [1, 0], [1, 1]]"

text \<open>Exclusive-or of two binary inputs as a label, and the label column of a table of
  input pairs.\<close>

definition xor_label :: "'a::zero_neq_one \<Rightarrow> 'a \<Rightarrow> 'a" where
  "xor_label a b = (if (a = 0) = (b = 0) then 0 else 1)"

definition xor_labels :: "'a::zero_neq_one array2 \<Rightarrow> 'a array2" where
  "xor_labels A = map (\<lambda>r. [xor_label (r ! 0) (r ! 1)]) A"

section \<open>The TensorFlow notebook on the same four input pairs\<close>

text \<open>
  The notebook binds \<open>X_train_data\<close> and \<open>y_train_data\<close> twice: in its second code cell,
  and again at the head of the cell that defines and trains \<open>XORModel\<close>, there under the
  comment "Define training data (XOR problem)". Both are \<open>float32\<close> arrays.
\<close>

definition X_train_data_1 :: "real array2" where
  "X_train_data_1 = [[0, 0], [0, 1], [1, 0], [1, 1]]"

definition y_train_data_1 :: "real array2" where
  "y_train_data_1 = [[0], [1], [0], [0]]"

definition X_train_data_2 :: "real array2" where
  "X_train_data_2 = [[0, 0], [0, 1], [1, 0], [1, 1]]"

definition y_train_data_2 :: "real array2" where
  "y_train_data_2 = [[0], [1], [1], [0]]"

text \<open>
  Which arrays the two pieces of training code of this notebook read. The namespace of
  the notebook maps names to arrays; bindings of names that hold no data are left out.
  \<^item> The second code cell binds \<open>X_train_data\<close> and \<open>y_train_data\<close> for the first time;
    the next two cells only display them.
  \<^item> A later cell binds \<open>X\<close> and \<open>y\<close> to variables with random values \<open>rx\<close> of shape
    \<open>(1, n_input)\<close> and \<open>ry\<close> of shape \<open>(1, n_output)\<close>.
  \<^item> The single gradient step computes \<open>tf.matmul(X, w1)\<close> and \<open>y - a2\<close>: it reads \<open>X\<close>
    and \<open>y\<close>.
  \<^item> The last cell binds \<open>X_train_data\<close> and \<open>y_train_data\<close> again, and its loop
    computes \<open>model(X_train_data)\<close> and \<open>loss_fn(y_train_data, predictions)\<close>: it reads
    \<open>X_train_data\<close> and \<open>y_train_data\<close>.
\<close>

type_synonym namespace = "string \<rightharpoonup> real array2"

definition bind_train_data_1 :: "namespace \<Rightarrow> namespace" where
  "bind_train_data_1 e =
     e(''X_train_data'' \<mapsto> X_train_data_1, ''y_train_data'' \<mapsto> y_train_data_1)"

definition bind_placeholders :: "real array2 \<Rightarrow> real array2 \<Rightarrow> namespace \<Rightarrow> namespace" where
  "bind_placeholders rx ry e = e(''X'' \<mapsto> rx, ''y'' \<mapsto> ry)"

definition gradient_step_reads :: "namespace \<Rightarrow> real array2 option \<times> real array2 option" where
  "gradient_step_reads e = (e ''X'', e ''y'')"

definition bind_train_data_2 :: "namespace \<Rightarrow> namespace" where
  "bind_train_data_2 e =
     e(''X_train_data'' \<mapsto> X_train_data_2, ''y_train_data'' \<mapsto> y_train_data_2)"

definition xormodel_loop_reads :: "namespace \<Rightarrow> real array2 option \<times> real array2 option" where
  "xormodel_loop_reads e = (e ''X_train_data'', e ''y_train_data'')"

text \<open>The namespace when the gradient step runs, and when the loop of the last cell
  runs.\<close>

definition namespace_at_gradient_step :: "real array2 \<Rightarrow> real array2 \<Rightarrow> namespace" where
  "namespace_at_gradient_step rx ry = bind_placeholders rx ry (bind_train_data_1 Map.empty)"

definition namespace_at_xormodel_loop :: "real array2 \<Rightarrow> real array2 \<Rightarrow> namespace" where
  "namespace_at_xormodel_loop rx ry = bind_train_data_2 (namespace_at_gradient_step rx ry)"

section \<open>The notebooks as scripts\<close>

text \<open>
  A notebook runs its code cells from top to bottom. Each statement group of a cell is
  one step, named by what it does:
  \<^item> \<open>Import\<close>: import statements;
  \<^item> \<open>Local_function\<close>, \<open>Local_class\<close>: a \<open>def\<close> or a \<open>class\<close> written in the notebook;
  \<^item> \<open>Load_data\<close>: the data set is bound (array literals, a library loader, or generated);
  \<^item> \<open>Prepare\<close>: padding, scaling, encoding or splitting the data;
  \<^item> \<open>Configure\<close>: layer sizes, learning rate, number of epochs, optimizer and loss
    objects;
  \<^item> \<open>Init_parameters\<close>: weight and bias arrays or variables created by hand;
  \<^item> \<open>Build_model\<close>: a model object is made by library calls (layers added to a
    \<open>Sequential\<close>, an estimator or a model class instantiated);
  \<^item> \<open>Compile_model\<close>: \<open>model.compile\<close> sets optimizer, loss and metrics;
  \<^item> \<open>Library_training\<close>: a call of a library training routine (\<open>fit\<close>);
  \<^item> \<open>Local_training_loop\<close>: a \<open>for epoch in range(...)\<close> loop written in the notebook
    whose body computes a forward pass and updates the parameters;
  \<^item> \<open>Local_gradient_step\<close>: one such update written in the notebook, outside any loop;
  \<^item> \<open>Evaluate\<close>: a further library computation on the trained model or the data
    (predictions, scores, a linkage matrix);
  \<^item> \<open>Print_metric\<close>: a quality measure of the model is printed (accuracy, confusion
    matrix, classification report, AUC), by a \<open>print\<close> statement or, right after a
    \<open>Library_training\<close>, by the progress lines of a \<open>fit\<close> that was compiled with
    \<open>metrics=['accuracy']\<close>;
  \<^item> \<open>Print_other\<close>: anything else printed or displayed;
  \<^item> \<open>Persist\<close>: the model is saved or loaded; \<open>Plot\<close>: a figure is drawn.
\<close>

datatype step =
    Import | Local_function | Local_class | Load_data | Prepare | Configure
  | Init_parameters | Build_model | Compile_model | Library_training | Local_training_loop
  | Local_gradient_step | Evaluate | Print_metric | Print_other | Persist | Plot

type_synonym notebook = "step list"

text \<open>The NumPy XOR notebook: imports, \<open>sigmoid\<close>, \<open>sigmoid_derivative\<close>, \<open>X\<close> and \<open>y\<close>,
  the sizes, the random weights; learning rate and epochs; the training loop; the final
  outputs printed; the accuracy by hand; the accuracy by \<open>accuracy_score\<close>.\<close>

definition xor_numpy :: notebook where
  "xor_numpy =
     [Import, Local_function, Local_function, Load_data, Configure, Init_parameters,
      Configure,
      Local_training_loop,
      Print_other,
      Evaluate, Print_metric,
      Import, Evaluate, Print_metric]"

text \<open>The CIFAR-10 notebook: imports; \<open>create_cnn_models\<close> defined and called, summary;
  imports; \<open>cifar10.load_data\<close>, scaling and one-hot labels, \<open>compile\<close> with the accuracy
  metric, \<open>fit\<close>, which prints accuracy and validation accuracy for each epoch; the
  model saved, loaded, and saved for serving.\<close>

definition cnn_cifar10 :: notebook where
  "cnn_cifar10 =
     [Import,
      Local_function, Build_model, Print_other,
      Import,
      Load_data, Prepare, Compile_model, Library_training, Print_metric,
      Persist, Persist, Persist]"

text \<open>The IMDB notebook with a simple recurrent layer and then an LSTM layer: imports;
  \<open>imdb.load_data\<close> and padding; \<open>Sequential\<close> with its layers, summary; \<open>compile\<close> and
  \<open>fit\<close>; \<open>evaluate\<close> and the test accuracy printed; then the same once more in one cell.\<close>

definition rnn_lstm_imdb :: notebook where
  "rnn_lstm_imdb =
     [Import,
      Load_data, Prepare,
      Build_model, Print_other,
      Compile_model, Library_training, Print_metric,
      Evaluate, Print_metric,
      Load_data, Prepare, Build_model, Print_other, Compile_model, Library_training,
      Print_metric, Evaluate, Print_metric]"

text \<open>The TensorFlow notebook: imports; the first data cell; both arrays displayed; the
  layer sizes; random variables for one input row and its output; variables for weights
  and biases; an optimizer and one gradient step written with \<open>GradientTape\<close>; then the
  last cell: imports, the data again, \<open>class XORModel\<close>, the model, optimizer and loss
  objects, the loop over 1000 epochs with \<open>GradientTape\<close>, the test data, the predictions
  computed, printed and plotted.\<close>

definition ann_tensorflow :: notebook where
  "ann_tensorflow =
     [Import,
      Load_data,
      Print_other, Print_other,
      Configure,
      Load_data,
      Init_parameters,
      Configure, Local_gradient_step,
      Import, Load_data, Local_class, Build_model, Configure, Local_training_loop,
      Load_data, Evaluate, Print_other, Plot]"

text \<open>The clustering notebook: imports; twenty random points;
  \<open>AgglomerativeClustering(...).fit(X)\<close> and the cluster labels printed; the linkage
  matrix and its dendrogram.\<close>

definition hierarchical_clustering :: notebook where
  "hierarchical_clustering =
     [Import,
      Load_data,
      Build_model, Library_training, Print_other,
      Evaluate, Plot]"

text \<open>The decision-tree notebook: imports; \<open>load_iris\<close>; two displays; the split;
  \<open>DecisionTreeClassifier\<close> and \<open>fit\<close>; \<open>predict\<close>; accuracy; the tree drawn; confusion
  matrix; classification report; the label values; AUC.\<close>

definition decision_trees :: notebook where
  "decision_trees =
     [Import,
      Load_data,
      Print_other, Print_other,
      Prepare,
      Build_model, Library_training,
      Evaluate, Print_other,
      Evaluate, Print_metric,
      Plot,
      Import, Evaluate, Print_metric,
      Import, Print_metric,
      Import, Print_other,
      Import, Evaluate, Print_metric]"

text \<open>The deep-network notebook on IMDB: imports; \<open>imdb.load_data\<close> and padding;
  \<open>Sequential\<close> with its layers; \<open>compile\<close>; shapes printed; label values printed;
  \<open>fit\<close>, \<open>evaluate\<close> and the test accuracy printed.\<close>

definition deep_neural_networks :: notebook where
  "deep_neural_networks =
     [Import,
      Load_data, Prepare,
      Build_model,
      Compile_model,
      Print_other,
      Import, Print_other,
      Library_training, Print_metric, Evaluate, Print_metric]"

definition corpus :: "notebook list" where
  "corpus = [xor_numpy, cnn_cifar10, rnn_lstm_imdb, ann_tensorflow,
             hierarchical_clustering, decision_trees, deep_neural_networks]"

text \<open>\<open>in_order ps s\<close>: the steps \<open>ps\<close> occur in \<open>s\<close> one after the other, in this order,
  possibly with other steps between them.\<close>

fun in_order :: "step list \<Rightarrow> step list \<Rightarrow> bool" where
  "in_order [] s = True"
| "in_order (q # qs) [] = False"
| "in_order (q # qs) (x # xs) = (if q = x then in_order qs xs else in_order (q # qs) xs)"

text \<open>The outline "load data, build a model, call a library training routine, print a
  metric", with the training done by the library and not by a loop of the notebook.\<close>

definition follows_outline :: "notebook \<Rightarrow> bool" where
  "follows_outline s \<longleftrightarrow>
     in_order [Load_data, Build_model, Library_training, Print_metric] s
     \<and> Local_training_loop \<notin> set s"

text \<open>Training iterations and data structures written in the notebook itself.\<close>

definition locally_authored :: "step \<Rightarrow> bool" where
  "locally_authored x \<longleftrightarrow>
     x = Local_training_loop \<or> x = Local_gradient_step \<or> x = Local_class"

definition only_library_calls :: "notebook \<Rightarrow> bool" where
  "only_library_calls s \<longleftrightarrow> filter locally_authored s = []"

section \<open>The sigmoid\<close>

lemma sigmoid_pos: "0 < sigmoid x"
  by (simp add: sigmoid_def add_pos_pos)

lemma sigmoid_lt_one: "sigmoid x < 1"
  by (simp add: sigmoid_def add_pos_pos)

lemma sigmoid_neg: "sigmoid (- x) = 1 - sigmoid x"
proof -
  have e: "exp (- x) = 1 / exp x"
    by (simp add: exp_minus inverse_eq_divide)
  have nz: "1 + exp x \<noteq> 0"
    using exp_gt_zero [of x] by linarith
  have "1 / (1 + exp x) = 1 - 1 / (1 + 1 / exp x)"
    using nz by (simp add: field_simps)
  then show ?thesis
    unfolding sigmoid_def minus_minus e .
qed

lemma sigmoid_zero: "sigmoid 0 = 1 / 2"
  by (simp add: sigmoid_def)

lemma sigmoid_has_derivative:
  "(sigmoid has_real_derivative sigmoid x * (1 - sigmoid x)) (at x)"
proof -
  have pos: "1 + exp (- x) \<noteq> 0"
    using exp_gt_zero [of "- x"] by linarith
  have "((\<lambda>u. 1 / (1 + exp (- u))) has_real_derivative
          sigmoid x * (1 - sigmoid x)) (at x)"
    using pos
    by (auto intro!: derivative_eq_intros simp: sigmoid_def field_simps power2_eq_square)
  then show ?thesis
    by (simp add: sigmoid_def [abs_def])
qed

lemma DERIV_sigmoid_chain [derivative_intros]:
  assumes "(g has_real_derivative g') (at x within s)"
  shows "((\<lambda>u. sigmoid (g u)) has_real_derivative
           sigmoid (g x) * (1 - sigmoid (g x)) * g') (at x within s)"
  using DERIV_chain2 [OF sigmoid_has_derivative assms] by simp

lemma same_product_cases:
  fixes v s :: real
  assumes "v * (1 - v) = s * (1 - s)"
  shows "v = s \<or> v = 1 - s"
proof -
  have "(v - s) * (1 - v - s) = 0"
    using assms by algebra
  then show ?thesis by auto
qed

lemmas unfold_np = epoch_body_def forward_def X_xor_def y_xor_def elementwise_def dot_def
  broadcast_def bdim_def stretch_def broadcast_row_def mean_def sum_axis0_def iadd_def

lemma sigmoid_ln_3: "sigmoid (ln 3) = 3 / 4"
  by (simp add: sigmoid_def exp_minus)

section \<open>The forward pass\<close>

lemma those_map_Some:
  assumes "\<And>x. x \<in> set xs \<Longrightarrow> g x = Some (h x)"
  shows "those (map g xs) = Some (map h xs)"
  using assms by (induction xs) simp_all

lemma map2_replicate_right:
  "map2 f xs (replicate (length xs) v) = map (\<lambda>x. f x v) xs"
  by (induction xs) simp_all

lemma stretch_singleton: "stretch n [v] = replicate n v"
  by (cases "n = 1") (simp_all add: stretch_def)

lemma stretch_same: "stretch (length xs) xs = xs"
  by (simp add: stretch_def)

lemma bdim_one_right: "bdim n (Suc 0) = Some n"
  by (simp add: bdim_def)

lemma broadcast_bias_row:
  assumes "list_all (\<lambda>r. length r = length bias) M"
  shows "broadcast f M [bias] = Some (map (\<lambda>r. map2 f r bias) M)"
proof -
  have rows: "\<And>r. r \<in> set M \<Longrightarrow> broadcast_row f r bias = Some (map2 f r bias)"
    using assms by (simp add: list_all_iff broadcast_row_def bdim_def stretch_def)
  have "broadcast f M [bias] = those (map (\<lambda>r. broadcast_row f r bias) M)"
    by (simp add: broadcast_def bdim_one_right stretch_singleton map2_replicate_right
        stretch_same)
  then show ?thesis
    using those_map_Some [of M "\<lambda>r. broadcast_row f r bias" "\<lambda>r. map2 f r bias"] rows
    by simp
qed

lemma dot_two_columns:
  assumes "list_all (\<lambda>r. length r = 2) A"
  shows "dot A [[a, b], [c, d]]
         = Some (map (\<lambda>r. [r ! 0 * a + r ! 1 * c, r ! 0 * b + r ! 1 * d]) A)"
proof -
  have "\<And>r. r \<in> set A \<Longrightarrow>
          map (\<lambda>col. sum_list (map2 (*) r col)) (transpose [[a, b], [c, d]])
          = [r ! 0 * a + r ! 1 * c, r ! 0 * b + r ! 1 * d]"
  proof -
    fix r assume "r \<in> set A"
    with assms have "length r = 2" by (simp add: list_all_iff)
    then obtain x1 x2 where "r = [x1, x2]"
      by (auto simp: length_Suc_conv numeral_2_eq_2)
    then show "map (\<lambda>col. sum_list (map2 (*) r col)) (transpose [[a, b], [c, d]])
          = [r ! 0 * a + r ! 1 * c, r ! 0 * b + r ! 1 * d]"
      by simp
  qed
  then show ?thesis
    using assms by (simp add: dot_def numeral_2_eq_2)
qed

lemma dot_one_column:
  assumes "list_all (\<lambda>r. length r = 2) A"
  shows "dot A [[a], [c]] = Some (map (\<lambda>r. [r ! 0 * a + r ! 1 * c]) A)"
proof -
  have "\<And>r. r \<in> set A \<Longrightarrow>
          map (\<lambda>col. sum_list (map2 (*) r col)) (transpose [[a], [c]])
          = [r ! 0 * a + r ! 1 * c]"
  proof -
    fix r assume "r \<in> set A"
    with assms have "length r = 2" by (simp add: list_all_iff)
    then obtain x1 x2 where "r = [x1, x2]"
      by (auto simp: length_Suc_conv numeral_2_eq_2)
    then show "map (\<lambda>col. sum_list (map2 (*) r col)) (transpose [[a], [c]])
          = [r ! 0 * a + r ! 1 * c]"
      by simp
  qed
  then show ?thesis
    using assms by (simp add: dot_def numeral_2_eq_2)
qed

lemma forward_rows:
  assumes "list_all (\<lambda>r. length r = 2) A"
    and "p = \<lparr>W1 = [[w11, w12], [w21, w22]], b1 = [[b11, b12]],
               W2 = [[v1], [v2]], b2 = [[c]]\<rparr>"
  shows "forward A p = Some (map (\<lambda>r. [hidden_unit p 0 r, hidden_unit p 1 r]) A,
                            map (\<lambda>r. [network_output p r]) A)"
proof -
  let ?xw = "map (\<lambda>r. [r ! 0 * w11 + r ! 1 * w21, r ! 0 * w12 + r ! 1 * w22]) A"
  let ?h = "map (\<lambda>r. [hidden_unit p 0 r, hidden_unit p 1 r]) A"
  let ?hw = "map (\<lambda>r. [r ! 0 * v1 + r ! 1 * v2]) ?h"
  have d1: "dot A (W1 p) = Some ?xw"
    using dot_two_columns [OF assms(1)] assms(2) by simp
  have "list_all (\<lambda>r. length r = length [b11, b12]) ?xw"
    by (simp add: list_all_iff)
  from broadcast_bias_row [OF this, of "(+)"]
  have a1: "broadcast (+) ?xw (b1 p) = Some (map (\<lambda>r. map2 (+) r [b11, b12]) ?xw)"
    using assms(2) by simp
  have h: "elementwise sigmoid (map (\<lambda>r. map2 (+) r [b11, b12]) ?xw) = ?h"
    using assms(2) by (simp add: elementwise_def hidden_unit_def)
  have "list_all (\<lambda>r. length r = 2) ?h"
    by (simp add: list_all_iff)
  from dot_one_column [OF this]
  have d2: "dot ?h (W2 p) = Some ?hw"
    using assms(2) by simp
  have "list_all (\<lambda>r. length r = length [c]) ?hw"
    by (simp add: list_all_iff)
  from broadcast_bias_row [OF this, of "(+)"]
  have a2: "broadcast (+) ?hw (b2 p) = Some (map (\<lambda>r. map2 (+) r [c]) ?hw)"
    using assms(2) by simp
  have out: "elementwise sigmoid (map (\<lambda>r. map2 (+) r [c]) ?hw)
             = map (\<lambda>r. [network_output p r]) A"
    using assms(2) by (simp add: elementwise_def network_output_def)
  show ?thesis
    by (simp only: forward_def d1 a1 d2 a2 h out Let_def Option.bind.simps)
qed

lemma epoch_body_forward:
  assumes "epoch_body D t lr p = Some g"
  shows "forward (elementwise of_int D) p = Some (hidden_output g, final_output g)"
  using assms unfolding epoch_body_def
  by (auto simp: Let_def split: bind_splits prod.splits)


lemma has_shape_2_2:
  assumes "has_shape 2 2 A"
  obtains a b c d where "A = [[a, b], [c, d]]"
proof -
  from assms have "length A = 2" and rows: "\<forall>r\<in>set A. length r = 2"
    by (simp_all add: has_shape_def list_all_iff)
  then obtain r1 r2 where A: "A = [r1, r2]"
    by (auto simp: length_Suc_conv numeral_2_eq_2)
  with rows have "length r1 = 2" "length r2 = 2" by simp_all
  then obtain a b c d where "r1 = [a, b]" "r2 = [c, d]"
    by (auto simp: length_Suc_conv numeral_2_eq_2)
  with A that show thesis by simp
qed

lemma has_shape_1_2:
  assumes "has_shape 1 2 A"
  obtains a b where "A = [[a, b]]"
proof -
  from assms have "length A = 1" and rows: "\<forall>r\<in>set A. length r = 2"
    by (simp_all add: has_shape_def list_all_iff)
  then obtain r1 where A: "A = [r1]"
    by (auto simp: length_Suc_conv)
  with rows have "length r1 = 2" by simp
  then obtain a b where "r1 = [a, b]"
    by (auto simp: length_Suc_conv numeral_2_eq_2)
  with A that show thesis by simp
qed

lemma has_shape_2_1:
  assumes "has_shape 2 1 A"
  obtains a b where "A = [[a], [b]]"
proof -
  from assms have "length A = 2" and rows: "\<forall>r\<in>set A. length r = 1"
    by (simp_all add: has_shape_def list_all_iff)
  then obtain r1 r2 where A: "A = [r1, r2]"
    by (auto simp: length_Suc_conv numeral_2_eq_2)
  with rows have "length r1 = 1" "length r2 = 1" by simp_all
  then obtain a b where "r1 = [a]" "r2 = [b]"
    by (auto simp: length_Suc_conv)
  with A that show thesis by simp
qed

lemma has_shape_1_1:
  assumes "has_shape 1 1 A"
  obtains a where "A = [[a]]"
proof -
  from assms have "length A = 1" and rows: "\<forall>r\<in>set A. length r = 1"
    by (simp_all add: has_shape_def list_all_iff)
  then obtain r1 where A: "A = [r1]"
    by (auto simp: length_Suc_conv)
  with rows have "length r1 = 1" by simp
  then obtain a where "r1 = [a]"
    by (auto simp: length_Suc_conv)
  with A that show thesis by simp
qed

lemma xor_shaped_params:
  assumes "xor_shaped p"
  obtains w11 w12 w21 w22 b11 b12 v1 v2 c
  where "p = xor_params w11 w12 w21 w22 b11 b12 v1 v2 c"
proof -
  from assms have s: "has_shape 2 2 (W1 p)" "has_shape 1 2 (b1 p)"
    "has_shape 2 1 (W2 p)" "has_shape 1 1 (b2 p)"
    by (simp_all add: xor_shaped_def input_size_def hidden_size_def output_size_def)
  from s(1) obtain w11 w12 w21 w22 where 1: "W1 p = [[w11, w12], [w21, w22]]"
    by (rule has_shape_2_2)
  from s(2) obtain b11 b12 where 2: "b1 p = [[b11, b12]]"
    by (rule has_shape_1_2)
  from s(3) obtain v1 v2 where 3: "W2 p = [[v1], [v2]]"
    by (rule has_shape_2_1)
  from s(4) obtain c where 4: "b2 p = [[c]]"
    by (rule has_shape_1_1)
  have "p = xor_params w11 w12 w21 w22 b11 b12 v1 v2 c"
    using 1 2 3 4 by (simp add: xor_params_def)
  then show thesis by (rule that)
qed

lemma xor_shaped_xor_params [simp]:
  "xor_shaped (xor_params w11 w12 w21 w22 b11 b12 v1 v2 c)"
  by (simp add: xor_shaped_def xor_params_def has_shape_def input_size_def hidden_size_def
      output_size_def)

text \<open>
  C2. For parameters of the notebook's shapes and every input array with two columns, the
  forward pass yields, row by row, the two hidden activations and the output of the
  formula \<open>sigmoid (sigmoid (x . W1 + b1) . W2 + b2)\<close>: two matrix products, each followed
  by its bias and a sigmoid, and nothing else. The \<open>hidden_output\<close> and \<open>final_output\<close> of a
  pass through the loop body are this forward pass on the parameters the pass starts from.
\<close>

theorem forward_pass_is_two_layer_formula:
  assumes "xor_shaped p" and "list_all (\<lambda>r. length r = 2) A"
  shows "forward A p = Some (map (\<lambda>r. [hidden_unit p 0 r, hidden_unit p 1 r]) A,
                            map (\<lambda>r. [network_output p r]) A)
       \<and> (epoch_body D t lr p = Some g
            \<longrightarrow> forward (elementwise of_int D) p = Some (hidden_output g, final_output g))"
proof -
  from assms(1) obtain w11 w12 w21 w22 b11 b12 v1 v2 c
    where "p = xor_params w11 w12 w21 w22 b11 b12 v1 v2 c"
    by (rule xor_shaped_params)
  then have "p = \<lparr>W1 = [[w11, w12], [w21, w22]], b1 = [[b11, b12]],
               W2 = [[v1], [v2]], b2 = [[c]]\<rparr>"
    by (simp add: xor_params_def)
  from forward_rows [OF assms(2) this] epoch_body_forward [of D t lr p g]
  show ?thesis by simp
qed

theorem forward_pass_is_two_layer_formula_witness:
  "forward [[0, 0], [0, 1], [1, 0], [1, 1]] (xor_params 0 0 0 0 0 0 2 4 (- 3))
   = Some ([[1 / 2, 1 / 2], [1 / 2, 1 / 2], [1 / 2, 1 / 2], [1 / 2, 1 / 2]],
           [[1 / 2], [1 / 2], [1 / 2], [1 / 2]])
   \<and> (\<exists>g. epoch_body X_xor y_xor (1 / 2) (xor_params 0 0 0 0 0 0 2 4 (- 3)) = Some g
          \<and> final_output g = [[1 / 2], [1 / 2], [1 / 2], [1 / 2]])"
proof -
  let ?p = "xor_params 0 0 0 0 0 0 2 4 (- 3)"
  obtain g where g: "epoch_body X_xor y_xor (1 / 2) ?p = Some g"
    by (simp add: unfold_np xor_params_def)
  have shape: "list_all (\<lambda>r. length r = 2) [[0, 0], [0, 1], [1, 0], [1, 1 :: real]]"
    by simp
  have data: "elementwise of_int X_xor = [[0, 0], [0, 1], [1, 0], [1, 1 :: real]]"
    by (simp add: X_xor_def elementwise_def)
  from forward_pass_is_two_layer_formula
    [OF xor_shaped_xor_params shape, of 0 0 0 0 0 0 2 4 "- 3" X_xor y_xor "1 / 2" g] g
  show ?thesis
    by (auto simp: data hidden_unit_def network_output_def sigmoid_zero xor_params_def)
qed

section \<open>The backward pass\<close>

lemma sigmoid_derivative_at_activations:
  "list_all2 (list_all2 (\<lambda>z d. (sigmoid has_real_derivative d) (at z))) Z
     (elementwise sigmoid_derivative (elementwise sigmoid Z))"
proof -
  have "(sigmoid has_real_derivative sigmoid_derivative (sigmoid z)) (at z)" for z
    using sigmoid_has_derivative [of z] by (simp add: sigmoid_derivative_def)
  then show ?thesis
    by (simp add: elementwise_def list_all2_map2 list_all2_same)
qed

lemma epoch_body_backward:
  assumes "epoch_body A t lr p = Some g"
  shows "\<exists>xw hidden_input hw final_input back.
           dot (elementwise of_int A) (W1 p) = Some xw
         \<and> broadcast (+) xw (b1 p) = Some hidden_input
         \<and> hidden_output g = elementwise sigmoid hidden_input
         \<and> dot (hidden_output g) (W2 p) = Some hw
         \<and> broadcast (+) hw (b2 p) = Some final_input
         \<and> final_output g = elementwise sigmoid final_input
         \<and> broadcast (\<lambda>a b. of_int a - b) t (final_output g) = Some (error g)
         \<and> list_all2 (list_all2 (\<lambda>z d. (sigmoid has_real_derivative d) (at z)))
              final_input (elementwise sigmoid_derivative (final_output g))
         \<and> broadcast (*) (error g) (elementwise sigmoid_derivative (final_output g))
             = Some (d_output g)
         \<and> list_all2 (list_all2 (\<lambda>z d. (sigmoid has_real_derivative d) (at z)))
              hidden_input (elementwise sigmoid_derivative (hidden_output g))
         \<and> dot (d_output g) (transpose (W2 p)) = Some back
         \<and> broadcast (*) back (elementwise sigmoid_derivative (hidden_output g))
             = Some (d_hidden g)
         \<and> dot (transpose (hidden_output g)) (d_output g) = Some (W2_grad g)
         \<and> b2_grad g = sum_axis0 (d_output g)
         \<and> dot (transpose (elementwise of_int A)) (d_hidden g) = Some (W1_grad g)
         \<and> b1_grad g = sum_axis0 (d_hidden g)"
  using assms unfolding epoch_body_def forward_def
  by (auto simp: Let_def sigmoid_derivative_at_activations split: bind_splits prod.splits)

text \<open>
  C7. The function \<open>sigmoid_derivative\<close> maps \<open>x\<close> to \<open>x * (1 - x)\<close>. Applied to the
  activation \<open>sigmoid x\<close> it is the derivative of the sigmoid at \<open>x\<close>. Applied to the
  argument itself it is not: at 0 it gives 0, and the derivative there is 1/4. It gives
  the derivative at \<open>x\<close> only on the activations \<open>sigmoid x\<close> and \<open>sigmoid (- x)\<close>. A pass
  through the loop body applies it at two places: to \<open>final_output\<close>, the sigmoid of
  \<open>final_input\<close>, in \<open>d_output = error * sigmoid_derivative(final_output)\<close>, and to
  \<open>hidden_output\<close>, the sigmoid of \<open>hidden_input\<close>, in
  \<open>d_hidden = np.dot(d_output, W2.T) * sigmoid_derivative(hidden_output)\<close>. At both
  places every value it returns is the derivative of the sigmoid at the corresponding
  entry of \<open>final_input\<close> or \<open>hidden_input\<close>, and the four gradients of the pass are
  computed from these \<open>d_output\<close> and \<open>d_hidden\<close>.
\<close>

theorem sigmoid_derivative_of_activation:
  "(sigmoid has_real_derivative sigmoid_derivative (sigmoid x)) (at x)
   \<and> \<not> (sigmoid has_real_derivative sigmoid_derivative 0) (at 0)
   \<and> ((sigmoid has_real_derivative sigmoid_derivative v) (at x)
        \<longrightarrow> v = sigmoid x \<or> v = sigmoid (- x))
   \<and> (epoch_body A t lr p = Some g \<longrightarrow>
        (\<exists>xw hidden_input hw final_input back.
           dot (elementwise of_int A) (W1 p) = Some xw
         \<and> broadcast (+) xw (b1 p) = Some hidden_input
         \<and> hidden_output g = elementwise sigmoid hidden_input
         \<and> dot (hidden_output g) (W2 p) = Some hw
         \<and> broadcast (+) hw (b2 p) = Some final_input
         \<and> final_output g = elementwise sigmoid final_input
         \<and> broadcast (\<lambda>a b. of_int a - b) t (final_output g) = Some (error g)
         \<and> list_all2 (list_all2 (\<lambda>z d. (sigmoid has_real_derivative d) (at z)))
              final_input (elementwise sigmoid_derivative (final_output g))
         \<and> broadcast (*) (error g) (elementwise sigmoid_derivative (final_output g))
             = Some (d_output g)
         \<and> list_all2 (list_all2 (\<lambda>z d. (sigmoid has_real_derivative d) (at z)))
              hidden_input (elementwise sigmoid_derivative (hidden_output g))
         \<and> dot (d_output g) (transpose (W2 p)) = Some back
         \<and> broadcast (*) back (elementwise sigmoid_derivative (hidden_output g))
             = Some (d_hidden g)
         \<and> dot (transpose (hidden_output g)) (d_output g) = Some (W2_grad g)
         \<and> b2_grad g = sum_axis0 (d_output g)
         \<and> dot (transpose (elementwise of_int A)) (d_hidden g) = Some (W1_grad g)
         \<and> b1_grad g = sum_axis0 (d_hidden g)))"
proof (intro conjI impI)
  show "(sigmoid has_real_derivative sigmoid_derivative (sigmoid x)) (at x)"
    using sigmoid_has_derivative [of x] by (simp add: sigmoid_derivative_def)
next
  show "\<not> (sigmoid has_real_derivative sigmoid_derivative 0) (at 0)"
  proof
    assume "(sigmoid has_real_derivative sigmoid_derivative 0) (at 0)"
    from DERIV_unique [OF this sigmoid_has_derivative [of 0]]
    show False by (simp add: sigmoid_derivative_def sigmoid_zero)
  qed
next
  assume "(sigmoid has_real_derivative sigmoid_derivative v) (at x)"
  from DERIV_unique [OF this sigmoid_has_derivative [of x]]
  have "v * (1 - v) = sigmoid x * (1 - sigmoid x)"
    by (simp add: sigmoid_derivative_def)
  then show "v = sigmoid x \<or> v = sigmoid (- x)"
    using same_product_cases by (simp add: sigmoid_neg)
next
  assume "epoch_body A t lr p = Some g"
  then show "\<exists>xw hidden_input hw final_input back.
           dot (elementwise of_int A) (W1 p) = Some xw
         \<and> broadcast (+) xw (b1 p) = Some hidden_input
         \<and> hidden_output g = elementwise sigmoid hidden_input
         \<and> dot (hidden_output g) (W2 p) = Some hw
         \<and> broadcast (+) hw (b2 p) = Some final_input
         \<and> final_output g = elementwise sigmoid final_input
         \<and> broadcast (\<lambda>a b. of_int a - b) t (final_output g) = Some (error g)
         \<and> list_all2 (list_all2 (\<lambda>z d. (sigmoid has_real_derivative d) (at z)))
              final_input (elementwise sigmoid_derivative (final_output g))
         \<and> broadcast (*) (error g) (elementwise sigmoid_derivative (final_output g))
             = Some (d_output g)
         \<and> list_all2 (list_all2 (\<lambda>z d. (sigmoid has_real_derivative d) (at z)))
              hidden_input (elementwise sigmoid_derivative (hidden_output g))
         \<and> dot (d_output g) (transpose (W2 p)) = Some back
         \<and> broadcast (*) back (elementwise sigmoid_derivative (hidden_output g))
             = Some (d_hidden g)
         \<and> dot (transpose (hidden_output g)) (d_output g) = Some (W2_grad g)
         \<and> b2_grad g = sum_axis0 (d_output g)
         \<and> dot (transpose (elementwise of_int A)) (d_hidden g) = Some (W1_grad g)
         \<and> b1_grad g = sum_axis0 (d_hidden g)"
    by (rule epoch_body_backward)
qed

theorem sigmoid_derivative_of_activation_witness:
  "(sigmoid has_real_derivative sigmoid_derivative (3 / 4)) (at (ln 3))
   \<and> (3 / 4 = sigmoid (ln 3) \<or> 3 / 4 = sigmoid (- ln 3))
   \<and> (\<exists>g. epoch_body X_xor y_xor (1 / 2) (xor_params 0 0 0 0 0 0 1 0 (ln 3 - 1 / 2)) = Some g
        \<and> hidden_output g = [[1 / 2, 1 / 2], [1 / 2, 1 / 2], [1 / 2, 1 / 2], [1 / 2, 1 / 2]]
        \<and> final_output g = [[3 / 4], [3 / 4], [3 / 4], [3 / 4]]
        \<and> error g = [[- 3 / 4], [1 / 4], [1 / 4], [- 3 / 4]]
        \<and> broadcast (*) (error g) (elementwise sigmoid_derivative (final_output g))
            = Some (d_output g)
        \<and> d_output g = [[- 9 / 64], [3 / 64], [3 / 64], [- 9 / 64]]
        \<and> d_hidden g = [[- 9 / 256, 0], [3 / 256, 0], [3 / 256, 0], [- 9 / 256, 0]]
        \<and> dot (transpose (hidden_output g)) (d_output g) = Some (W2_grad g)
        \<and> W2_grad g = [[- 3 / 32], [- 3 / 32]]
        \<and> b2_grad g = [[- 3 / 16]]
        \<and> W1_grad g = [[- 3 / 128, 0], [- 3 / 128, 0]]
        \<and> b1_grad g = [[- 3 / 64, 0]])"
proof -
  let ?p = "xor_params 0 0 0 0 0 0 1 0 (ln 3 - 1 / 2)"
  have d: "(sigmoid has_real_derivative sigmoid_derivative (3 / 4)) (at (ln 3))"
    using sigmoid_has_derivative [of "ln 3"] by (simp add: sigmoid_ln_3 sigmoid_derivative_def)
  obtain g where g: "epoch_body X_xor y_xor (1 / 2) ?p = Some g"
    by (simp add: unfold_np xor_params_def)
  note inst = sigmoid_derivative_of_activation
    [where x = "ln 3" and v = "3 / 4" and A = X_xor and t = y_xor and lr = "1 / 2"
       and p = "?p" and g = g]
  from inst d have c3: "3 / 4 = sigmoid (ln 3) \<or> 3 / 4 = sigmoid (- ln 3)"
    by (elim conjE) (rule mp)
  from inst have "epoch_body X_xor y_xor (1 / 2) ?p = Some g \<longrightarrow>
        (\<exists>xw hidden_input hw final_input back.
           dot (elementwise of_int X_xor) (W1 ?p) = Some xw
         \<and> broadcast (+) xw (b1 ?p) = Some hidden_input
         \<and> hidden_output g = elementwise sigmoid hidden_input
         \<and> dot (hidden_output g) (W2 ?p) = Some hw
         \<and> broadcast (+) hw (b2 ?p) = Some final_input
         \<and> final_output g = elementwise sigmoid final_input
         \<and> broadcast (\<lambda>a b. of_int a - b) y_xor (final_output g) = Some (error g)
         \<and> list_all2 (list_all2 (\<lambda>z d. (sigmoid has_real_derivative d) (at z)))
              final_input (elementwise sigmoid_derivative (final_output g))
         \<and> broadcast (*) (error g) (elementwise sigmoid_derivative (final_output g))
             = Some (d_output g)
         \<and> list_all2 (list_all2 (\<lambda>z d. (sigmoid has_real_derivative d) (at z)))
              hidden_input (elementwise sigmoid_derivative (hidden_output g))
         \<and> dot (d_output g) (transpose (W2 ?p)) = Some back
         \<and> broadcast (*) back (elementwise sigmoid_derivative (hidden_output g))
             = Some (d_hidden g)
         \<and> dot (transpose (hidden_output g)) (d_output g) = Some (W2_grad g)
         \<and> b2_grad g = sum_axis0 (d_output g)
         \<and> dot (transpose (elementwise of_int X_xor)) (d_hidden g) = Some (W1_grad g)
         \<and> b1_grad g = sum_axis0 (d_hidden g))"
    by (elim conjE)
  with g obtain xw hidden_input hw final_input bk where
    m: "broadcast (*) (error g) (elementwise sigmoid_derivative (final_output g))
             = Some (d_output g)"
    and w: "dot (transpose (hidden_output g)) (d_output g) = Some (W2_grad g)"
    by (elim impE exE conjE) (assumption, rule that)
  from g have v: "hidden_output g = [[1 / 2, 1 / 2], [1 / 2, 1 / 2], [1 / 2, 1 / 2], [1 / 2, 1 / 2]]"
    "final_output g = [[3 / 4], [3 / 4], [3 / 4], [3 / 4]]"
    "error g = [[- 3 / 4], [1 / 4], [1 / 4], [- 3 / 4]]"
    "d_output g = [[- 9 / 64], [3 / 64], [3 / 64], [- 9 / 64]]"
    "d_hidden g = [[- 9 / 256, 0], [3 / 256, 0], [3 / 256, 0], [- 9 / 256, 0]]"
    "W2_grad g = [[- 3 / 32], [- 3 / 32]]"
    "b2_grad g = [[- 3 / 16]]"
    "W1_grad g = [[- 3 / 128, 0], [- 3 / 128, 0]]"
    "b1_grad g = [[- 3 / 64, 0]]"
    by (auto simp: unfold_np xor_params_def sigmoid_zero sigmoid_ln_3 sigmoid_derivative_def)
  from d c3 g m w v show ?thesis
    by blast
qed

section \<open>The label columns\<close>

lemmas namespace_defs = namespace_at_xormodel_loop_def namespace_at_gradient_step_def
  bind_train_data_1_def bind_train_data_2_def bind_placeholders_def xormodel_loop_reads_def
  gradient_step_reads_def

lemma first_binding_is_rebound:
  "y_train_data_1 = [[0], [1], [0], [0]]
   \<and> y_train_data_1 \<noteq> xor_labels X_train_data_1
   \<and> fst (xormodel_loop_reads (bind_train_data_1 Map.empty)) = Some X_train_data_1
   \<and> snd (xormodel_loop_reads (bind_train_data_1 Map.empty)) = Some y_train_data_1
   \<and> snd (xormodel_loop_reads (namespace_at_xormodel_loop rx ry)) \<noteq> Some y_train_data_1"
  by (simp add: namespace_defs y_train_data_1_def y_train_data_2_def X_train_data_1_def
      xor_labels_def xor_label_def)


section \<open>The order of steps in the notebooks\<close>

lemmas notebook_defs = xor_numpy_def cnn_cifar10_def rnn_lstm_imdb_def ann_tensorflow_def
  hierarchical_clustering_def decision_trees_def deep_neural_networks_def

text \<open>
  C4, as stated: every notebook loads data, builds a model by library calls, calls a
  library training routine and prints a metric, in this order, and none trains in a loop
  of its own. The NumPy XOR notebook trains in its own loop over the epochs and calls no
  library training routine.
\<close>

theorem outline_fails_on_xor_numpy:
  "xor_numpy \<in> set corpus \<and> Local_training_loop \<in> set xor_numpy
   \<and> Library_training \<notin> set xor_numpy \<and> \<not> follows_outline xor_numpy"
  by (simp add: corpus_def follows_outline_def xor_numpy_def)

text \<open>
  C4, amended: the recurrent, decision-tree and deep-network notebooks load data, build a
  model by library calls, call a library training routine and print a metric, in this
  order. The CIFAR-10 notebook builds its model, loads the data, compiles and calls
  \<open>fit\<close>, which prints the accuracy of every epoch; the clustering notebook loads data,
  builds and fits its model through the library and prints the cluster labels; neither
  has a training loop of its own. The NumPy XOR notebook binds its data, trains in its
  own loop and then prints a metric; the TensorFlow XOR notebook binds its data, builds a
  model and trains in its own loop; neither calls a library training routine.
\<close>

theorem outline_per_notebook:
  "follows_outline rnn_lstm_imdb \<and> follows_outline decision_trees
   \<and> follows_outline deep_neural_networks
   \<and> in_order [Build_model, Load_data, Compile_model, Library_training, Print_metric]
        cnn_cifar10
   \<and> Local_training_loop \<notin> set cnn_cifar10
   \<and> in_order [Load_data, Build_model, Library_training, Print_other]
        hierarchical_clustering
   \<and> Local_training_loop \<notin> set hierarchical_clustering
   \<and> in_order [Load_data, Local_training_loop, Print_metric] xor_numpy
   \<and> Library_training \<notin> set xor_numpy
   \<and> in_order [Load_data, Build_model, Local_training_loop] ann_tensorflow
   \<and> Library_training \<notin> set ann_tensorflow"
  by (simp add: follows_outline_def notebook_defs)

text \<open>
  C5, as stated: outside the first notebook no notebook has a training iteration or a
  class of its own. The TensorFlow XOR notebook, which is not the first notebook, defines
  the class \<open>XORModel\<close> and trains it in a loop of its own.
\<close>

theorem local_code_in_ann_tensorflow:
  "ann_tensorflow \<in> set corpus \<and> ann_tensorflow \<noteq> xor_numpy
   \<and> Local_class \<in> set ann_tensorflow \<and> Local_training_loop \<in> set ann_tensorflow
   \<and> \<not> only_library_calls ann_tensorflow"
  by (simp add: corpus_def only_library_calls_def locally_authored_def notebook_defs)

text \<open>
  C5, amended: the notebooks with a training iteration or a class of their own are the
  NumPy XOR notebook, with its training loop, and the TensorFlow XOR notebook, with one
  gradient step, the class \<open>XORModel\<close> and its training loop; the five other notebooks
  have neither.
\<close>

theorem local_code_per_notebook:
  "filter (\<lambda>s. \<not> only_library_calls s) corpus = [xor_numpy, ann_tensorflow]
   \<and> filter locally_authored xor_numpy = [Local_training_loop]
   \<and> filter locally_authored ann_tensorflow
       = [Local_gradient_step, Local_class, Local_training_loop]"
  by (simp add: corpus_def only_library_calls_def locally_authored_def notebook_defs)

section \<open>The two accuracy computations\<close>

lemma those_map2_columns:
  assumes "length A = length B"
    and "list_all (\<lambda>r. length r = 1) A" and "list_all (\<lambda>r. length r = 1) B"
  shows "those (map2 (broadcast_row f) A B) = Some (map2 (\<lambda>r s. [f (hd r) (hd s)]) A B)"
  using assms
proof (induction A B rule: list_induct2)
  case Nil
  then show ?case by simp
next
  case (Cons r A s B)
  from Cons.prems obtain a b where "r = [a]" "s = [b]"
    by (auto simp: length_Suc_conv)
  with Cons show ?case
    by (simp add: broadcast_row_def bdim_def stretch_def)
qed

lemma broadcast_columns:
  assumes "length A = length B"
    and "list_all (\<lambda>r. length r = 1) A" and "list_all (\<lambda>r. length r = 1) B"
  shows "broadcast f A B = Some (map2 (\<lambda>r s. [f (hd r) (hd s)]) A B)"
  using those_map2_columns [OF assms] assms(1)
  by (simp add: broadcast_def bdim_def stretch_def)

lemma hits_count:
  assumes "length out = length t"
    and "list_all (\<lambda>r. length r = 1) out" and "list_all (\<lambda>r. length r = 1) t"
  shows "sum_list (concat (elementwise of_bool
            (map2 (\<lambda>r s. [(of_bool (hd r) :: int) = hd s]) (predictions out) t)))
         = real (length (filter (\<lambda>(a, b). a = b) (zip t (binary_predictions out))))
       \<and> length (concat (elementwise (of_bool :: bool \<Rightarrow> real)
            (map2 (\<lambda>r s. [(of_bool (hd r) :: int) = hd s]) (predictions out) t)))
         = length t"
  using assms
proof (induction out t rule: list_induct2)
  case Nil
  then show ?case
    by (simp add: elementwise_def predictions_def binary_predictions_def)
next
  case (Cons r out s t)
  from Cons.prems obtain a b where rs: "r = [a]" "s = [b]"
    by (auto simp: length_Suc_conv)
  from Cons have ih: "sum_list (concat (elementwise of_bool
            (map2 (\<lambda>r s. [(of_bool (hd r) :: int) = hd s]) (predictions out) t)))
         = real (length (filter (\<lambda>(a, b). a = b) (zip t (binary_predictions out))))"
    and ihl: "length (concat (elementwise (of_bool :: bool \<Rightarrow> real)
            (map2 (\<lambda>r s. [(of_bool (hd r) :: int) = hd s]) (predictions out) t)))
         = length t"
    by simp_all
  show ?case
    using ih ihl rs
    by (auto simp: elementwise_def predictions_def binary_predictions_def)
qed

lemma recorded_run_accuracy:
  "predictions recorded_final_output = [[False], [True], [True], [False]]
   \<and> binary_predictions recorded_final_output = y_xor
   \<and> accuracy recorded_final_output y_xor = Some 1
   \<and> accuracy_sk recorded_final_output y_xor = Some 1"
  by (simp add: recorded_final_output_def predictions_def binary_predictions_def y_xor_def
      accuracy_def accuracy_sk_def accuracy_score_def elementwise_def broadcast_def
      broadcast_row_def bdim_def stretch_def mean_def)

text \<open>
  C8. For outputs and integer labels that are both columns with the same number of rows,
  at least one, the accuracy computed by hand, \<open>np.mean(predictions == y)\<close>, and the
  accuracy computed by \<open>accuracy_score\<close> on the outputs thresholded and converted to
  integers are the same number.
\<close>

theorem accuracy_computations_agree:
  assumes "length out = length t" and "out \<noteq> []"
    and "list_all (\<lambda>r. length r = 1) out" and "list_all (\<lambda>r. length r = 1) t"
  shows "accuracy out t = accuracy_sk out t \<and> accuracy out t \<noteq> None"
proof -
  have p1: "list_all (\<lambda>r. length r = 1) (predictions out)"
    using assms(3) by (simp add: predictions_def elementwise_def list_all_iff)
  have lp: "length (predictions out) = length t"
    using assms(1) by (simp add: predictions_def elementwise_def)
  have b: "broadcast (\<lambda>b l. (of_bool b :: int) = l) (predictions out) t
           = Some (map2 (\<lambda>r s. [(of_bool (hd r) :: int) = hd s]) (predictions out) t)"
    by (rule broadcast_columns [OF lp p1 assms(4)])
  note h = hits_count [OF assms(1) assms(3) assms(4)]
  have ne: "t \<noteq> []"
    using assms(1,2) by auto
  have lb: "length (binary_predictions out) = length t"
    using assms(1) by (simp add: binary_predictions_def elementwise_def)
  have cne: "concat (elementwise (of_bool :: bool \<Rightarrow> real)
            (map2 (\<lambda>r s. [(of_bool (hd r) :: int) = hd s]) (predictions out) t)) \<noteq> []"
    using h ne by (metis length_0_conv)
  have "accuracy out t
        = Some (real (length (filter (\<lambda>(a, b). a = b) (zip t (binary_predictions out))))
                / real (length t))"
    using h cne unfolding accuracy_def b mean_def by simp
  moreover have "accuracy_sk out t
        = Some (real (length (filter (\<lambda>(a, b). a = b) (zip t (binary_predictions out))))
                / real (length t))"
    using ne lb by (simp add: accuracy_sk_def accuracy_score_def)
  ultimately show ?thesis by simp
qed

theorem accuracy_computations_agree_witness:
  "accuracy [[1 / 50], [49 / 50], [49 / 50], [1 / 50]] y_xor
     = accuracy_sk [[1 / 50], [49 / 50], [49 / 50], [1 / 50]] y_xor
   \<and> accuracy [[1 / 50], [49 / 50], [49 / 50], [1 / 50]] y_xor = Some 1
   \<and> accuracy [[3 / 5], [49 / 50], [49 / 50], [1 / 50]] y_xor
     = accuracy_sk [[3 / 5], [49 / 50], [49 / 50], [1 / 50]] y_xor
   \<and> accuracy [[3 / 5], [49 / 50], [49 / 50], [1 / 50]] y_xor = Some (3 / 4)"
  using accuracy_computations_agree [of "[[1 / 50], [49 / 50], [49 / 50], [1 / 50]]" y_xor]
    accuracy_computations_agree [of "[[3 / 5], [49 / 50], [49 / 50], [1 / 50]]" y_xor]
  by (simp add: y_xor_def accuracy_sk_def accuracy_score_def binary_predictions_def
      elementwise_def)

section \<open>The training loop\<close>

lemma epoch_body_shapes:
  assumes "xor_shaped p"
  shows "\<exists>g. epoch_body X_xor y_xor lr p = Some g \<and> xor_shaped (updated g)"
proof -
  from assms obtain w11 w12 w21 w22 b11 b12 v1 v2 c
    where p: "p = xor_params w11 w12 w21 w22 b11 b12 v1 v2 c"
    by (rule xor_shaped_params)
  show ?thesis
    unfolding p
    by (simp add: unfold_np xor_params_def xor_shaped_def has_shape_def input_size_def
        hidden_size_def output_size_def)
qed

lemma training_loop_completes:
  assumes "xor_shaped (fst s)"
  shows "\<exists>s'. training_loop k X_xor y_xor lr s = Some s' \<and> xor_shaped (fst s')"
  using assms
proof (induction k arbitrary: s)
  case 0
  then show ?case by simp
next
  case (Suc k)
  from epoch_body_shapes [OF Suc.prems, of lr]
  obtain g where g: "epoch_body X_xor y_xor lr (fst s) = Some g" "xor_shaped (updated g)"
    by blast
  from Suc.IH [of "(updated g, Some (final_output g))"] g
  show ?case by simp
qed

lemma training_loop_last_pass:
  "training_loop (Suc k) A t lr s =
     (case training_loop k A t lr s of
        None \<Rightarrow> None
      | Some s' \<Rightarrow>
          (case epoch_body A t lr (fst s') of
             None \<Rightarrow> None
           | Some g \<Rightarrow> Some (updated g, Some (final_output g))))"
proof (induction k arbitrary: s)
  case 0
  show ?case by (simp split: option.splits)
next
  case (Suc k)
  show ?case
  proof (cases "epoch_body A t lr (fst s)")
    case None
    then show ?thesis by simp
  next
    case (Some g)
    have "training_loop (Suc (Suc k)) A t lr s
          = training_loop (Suc k) A t lr (updated g, Some (final_output g))"
      using Some by simp
    also have "\<dots> = (case training_loop k A t lr (updated g, Some (final_output g)) of
        None \<Rightarrow> None
      | Some s' \<Rightarrow>
          (case epoch_body A t lr (fst s') of
             None \<Rightarrow> None
           | Some g \<Rightarrow> Some (updated g, Some (final_output g))))"
      by (rule Suc.IH)
    also have "training_loop k A t lr (updated g, Some (final_output g))
               = training_loop (Suc k) A t lr s"
      using Some by simp
    finally show ?thesis .
  qed
qed

lemma xor_numpy_run_completes:
  assumes "xor_shaped p0"
  shows "\<exists>s. xor_numpy_run p0 = Some s"
  using training_loop_completes [of "(p0, None)" epochs learning_rate] assms
  by (auto simp: xor_numpy_run_def)

section \<open>The gradients written by hand\<close>

lemmas unfold_loss = mean_squared_error_def network_output_def hidden_unit_def

lemma epoch_body_loss:
  "loss (the (epoch_body X_xor y_xor lr (xor_params w11 w12 w21 w22 b11 b12 v1 v2 c)))
   = mean_squared_error X_xor y_xor (xor_params w11 w12 w21 w22 b11 b12 v1 v2 c)"
  by (simp add: unfold_np unfold_loss xor_params_def square_def power2_eq_square)

lemma loss_derivative_W1_00:
  "((\<lambda>u. mean_squared_error X_xor y_xor (xor_params u w12 w21 w22 b11 b12 v1 v2 c))
      has_real_derivative
        - (W1_grad (the (epoch_body X_xor y_xor lr (xor_params w11 w12 w21 w22 b11 b12 v1 v2 c)))
             ! 0 ! 0) / 2) (at w11)"
  apply (simp add: unfold_np unfold_loss xor_params_def power2_eq_square
      sigmoid_derivative_def)
  apply (rule derivative_eq_intros refl | simp)+
  apply (algebra)?
  done

lemma loss_derivative_W1_01:
  "((\<lambda>u. mean_squared_error X_xor y_xor (xor_params w11 u w21 w22 b11 b12 v1 v2 c))
      has_real_derivative
        - (W1_grad (the (epoch_body X_xor y_xor lr (xor_params w11 w12 w21 w22 b11 b12 v1 v2 c)))
             ! 0 ! 1) / 2) (at w12)"
  apply (simp add: unfold_np unfold_loss xor_params_def power2_eq_square
      sigmoid_derivative_def)
  apply (rule derivative_eq_intros refl | simp)+
  apply (algebra)?
  done

lemma loss_derivative_W1_10:
  "((\<lambda>u. mean_squared_error X_xor y_xor (xor_params w11 w12 u w22 b11 b12 v1 v2 c))
      has_real_derivative
        - (W1_grad (the (epoch_body X_xor y_xor lr (xor_params w11 w12 w21 w22 b11 b12 v1 v2 c)))
             ! 1 ! 0) / 2) (at w21)"
  apply (simp add: unfold_np unfold_loss xor_params_def power2_eq_square
      sigmoid_derivative_def)
  apply (rule derivative_eq_intros refl | simp)+
  apply (algebra)?
  done

lemma loss_derivative_W1_11:
  "((\<lambda>u. mean_squared_error X_xor y_xor (xor_params w11 w12 w21 u b11 b12 v1 v2 c))
      has_real_derivative
        - (W1_grad (the (epoch_body X_xor y_xor lr (xor_params w11 w12 w21 w22 b11 b12 v1 v2 c)))
             ! 1 ! 1) / 2) (at w22)"
  apply (simp add: unfold_np unfold_loss xor_params_def power2_eq_square
      sigmoid_derivative_def)
  apply (rule derivative_eq_intros refl | simp)+
  apply (algebra)?
  done

lemma loss_derivative_b1_00:
  "((\<lambda>u. mean_squared_error X_xor y_xor (xor_params w11 w12 w21 w22 u b12 v1 v2 c))
      has_real_derivative
        - (b1_grad (the (epoch_body X_xor y_xor lr (xor_params w11 w12 w21 w22 b11 b12 v1 v2 c)))
             ! 0 ! 0) / 2) (at b11)"
  apply (simp add: unfold_np unfold_loss xor_params_def power2_eq_square
      sigmoid_derivative_def)
  apply (rule derivative_eq_intros refl | simp)+
  apply (algebra)?
  done

lemma loss_derivative_b1_01:
  "((\<lambda>u. mean_squared_error X_xor y_xor (xor_params w11 w12 w21 w22 b11 u v1 v2 c))
      has_real_derivative
        - (b1_grad (the (epoch_body X_xor y_xor lr (xor_params w11 w12 w21 w22 b11 b12 v1 v2 c)))
             ! 0 ! 1) / 2) (at b12)"
  apply (simp add: unfold_np unfold_loss xor_params_def power2_eq_square
      sigmoid_derivative_def)
  apply (rule derivative_eq_intros refl | simp)+
  apply (algebra)?
  done

lemma loss_derivative_W2_00:
  "((\<lambda>u. mean_squared_error X_xor y_xor (xor_params w11 w12 w21 w22 b11 b12 u v2 c))
      has_real_derivative
        - (W2_grad (the (epoch_body X_xor y_xor lr (xor_params w11 w12 w21 w22 b11 b12 v1 v2 c)))
             ! 0 ! 0) / 2) (at v1)"
  apply (simp add: unfold_np unfold_loss xor_params_def power2_eq_square
      sigmoid_derivative_def)
  apply (rule derivative_eq_intros refl | simp)+
  apply (algebra)?
  done

lemma loss_derivative_W2_10:
  "((\<lambda>u. mean_squared_error X_xor y_xor (xor_params w11 w12 w21 w22 b11 b12 v1 u c))
      has_real_derivative
        - (W2_grad (the (epoch_body X_xor y_xor lr (xor_params w11 w12 w21 w22 b11 b12 v1 v2 c)))
             ! 1 ! 0) / 2) (at v2)"
  apply (simp add: unfold_np unfold_loss xor_params_def power2_eq_square
      sigmoid_derivative_def)
  apply (rule derivative_eq_intros refl | simp)+
  apply (algebra)?
  done

lemma loss_derivative_b2_00:
  "((\<lambda>u. mean_squared_error X_xor y_xor (xor_params w11 w12 w21 w22 b11 b12 v1 v2 u))
      has_real_derivative
        - (b2_grad (the (epoch_body X_xor y_xor lr (xor_params w11 w12 w21 w22 b11 b12 v1 v2 c)))
             ! 0 ! 0) / 2) (at c)"
  apply (simp add: unfold_np unfold_loss xor_params_def power2_eq_square
      sigmoid_derivative_def)
  apply (rule derivative_eq_intros refl | simp)+
  apply (algebra)?
  done

lemma epoch_body_final_output:
  "final_output (the (epoch_body X_xor y_xor lr (xor_params w11 w12 w21 w22 b11 b12 v1 v2 c)))
   = map (\<lambda>r. [network_output (xor_params w11 w12 w21 w22 b11 b12 v1 v2 c) r]) four_pairs"
  by (simp add: unfold_np unfold_loss xor_params_def four_pairs_def)

lemma epoch_body_loss_value:
  assumes "epoch_body A t lr p = Some g"
  shows "broadcast (\<lambda>a b. of_int a - b) t (final_output g) = Some (error g)
       \<and> mean (elementwise square (error g)) = Some (loss g)"
  using assms unfolding epoch_body_def
  by (auto simp: Let_def split: bind_splits prod.splits)

lemma epoch_body_gradients:
  "\<exists>g d11 d12 d21 d22 e1 e2 f1 f2 k.
     epoch_body X_xor y_xor lr (xor_params w11 w12 w21 w22 b11 b12 v1 v2 c) = Some g
     \<and> ((\<lambda>u. mean_squared_error X_xor y_xor (xor_params u w12 w21 w22 b11 b12 v1 v2 c))
         has_real_derivative d11) (at w11)
     \<and> ((\<lambda>u. mean_squared_error X_xor y_xor (xor_params w11 u w21 w22 b11 b12 v1 v2 c))
         has_real_derivative d12) (at w12)
     \<and> ((\<lambda>u. mean_squared_error X_xor y_xor (xor_params w11 w12 u w22 b11 b12 v1 v2 c))
         has_real_derivative d21) (at w21)
     \<and> ((\<lambda>u. mean_squared_error X_xor y_xor (xor_params w11 w12 w21 u b11 b12 v1 v2 c))
         has_real_derivative d22) (at w22)
     \<and> ((\<lambda>u. mean_squared_error X_xor y_xor (xor_params w11 w12 w21 w22 u b12 v1 v2 c))
         has_real_derivative e1) (at b11)
     \<and> ((\<lambda>u. mean_squared_error X_xor y_xor (xor_params w11 w12 w21 w22 b11 u v1 v2 c))
         has_real_derivative e2) (at b12)
     \<and> ((\<lambda>u. mean_squared_error X_xor y_xor (xor_params w11 w12 w21 w22 b11 b12 u v2 c))
         has_real_derivative f1) (at v1)
     \<and> ((\<lambda>u. mean_squared_error X_xor y_xor (xor_params w11 w12 w21 w22 b11 b12 v1 u c))
         has_real_derivative f2) (at v2)
     \<and> ((\<lambda>u. mean_squared_error X_xor y_xor (xor_params w11 w12 w21 w22 b11 b12 v1 v2 u))
         has_real_derivative k) (at c)
     \<and> W1_grad g = [[- 2 * d11, - 2 * d12], [- 2 * d21, - 2 * d22]]
     \<and> b1_grad g = [[- 2 * e1, - 2 * e2]]
     \<and> W2_grad g = [[- 2 * f1], [- 2 * f2]]
     \<and> b2_grad g = [[- 2 * k]]
     \<and> updated g = xor_params
         (w11 - 2 * lr * d11) (w12 - 2 * lr * d12) (w21 - 2 * lr * d21) (w22 - 2 * lr * d22) (b11 - 2 * lr * e1) (b12 - 2 * lr * e2) (v1 - 2 * lr * f1) (v2 - 2 * lr * f2) (c - 2 * lr * k)"
proof -
  let ?g = "the (epoch_body X_xor y_xor lr (xor_params w11 w12 w21 w22 b11 b12 v1 v2 c))"
  have g: "epoch_body X_xor y_xor lr (xor_params w11 w12 w21 w22 b11 b12 v1 v2 c) = Some ?g"
    by (simp add: unfold_np xor_params_def)
  have W1g: "W1_grad ?g = [[W1_grad ?g ! 0 ! 0, W1_grad ?g ! 0 ! 1],
                           [W1_grad ?g ! 1 ! 0, W1_grad ?g ! 1 ! 1]]"
    by (simp add: unfold_np xor_params_def)
  have b1g: "b1_grad ?g = [[b1_grad ?g ! 0 ! 0, b1_grad ?g ! 0 ! 1]]"
    by (simp add: unfold_np xor_params_def)
  have W2g: "W2_grad ?g = [[W2_grad ?g ! 0 ! 0], [W2_grad ?g ! 1 ! 0]]"
    by (simp add: unfold_np xor_params_def)
  have b2g: "b2_grad ?g = [[b2_grad ?g ! 0 ! 0]]"
    by (simp add: unfold_np xor_params_def)
  have upd: "updated ?g = xor_params
      (w11 + lr * (W1_grad ?g ! 0 ! 0)) (w12 + lr * (W1_grad ?g ! 0 ! 1))
      (w21 + lr * (W1_grad ?g ! 1 ! 0)) (w22 + lr * (W1_grad ?g ! 1 ! 1))
      (b11 + lr * (b1_grad ?g ! 0 ! 0)) (b12 + lr * (b1_grad ?g ! 0 ! 1))
      (v1 + lr * (W2_grad ?g ! 0 ! 0)) (v2 + lr * (W2_grad ?g ! 1 ! 0))
      (c + lr * (b2_grad ?g ! 0 ! 0))"
    by (simp add: unfold_np xor_params_def)
  have m2: "\<And>v :: real. - 2 * (- v / 2) = v"
    by simp
  have st: "\<And>(w :: real) v. w - 2 * lr * (- v / 2) = w + lr * v"
    by simp
  show ?thesis
    apply (rule exI [of _ ?g])
    apply (rule exI [of _ "- (W1_grad ?g ! 0 ! 0) / 2"])
    apply (rule exI [of _ "- (W1_grad ?g ! 0 ! 1) / 2"])
    apply (rule exI [of _ "- (W1_grad ?g ! 1 ! 0) / 2"])
    apply (rule exI [of _ "- (W1_grad ?g ! 1 ! 1) / 2"])
    apply (rule exI [of _ "- (b1_grad ?g ! 0 ! 0) / 2"])
    apply (rule exI [of _ "- (b1_grad ?g ! 0 ! 1) / 2"])
    apply (rule exI [of _ "- (W2_grad ?g ! 0 ! 0) / 2"])
    apply (rule exI [of _ "- (W2_grad ?g ! 1 ! 0) / 2"])
    apply (rule exI [of _ "- (b2_grad ?g ! 0 ! 0) / 2"])
    apply (intro conjI)
                 apply (rule g)
    apply (rule loss_derivative_W1_00)
    apply (rule loss_derivative_W1_01)
    apply (rule loss_derivative_W1_10)
    apply (rule loss_derivative_W1_11)
    apply (rule loss_derivative_b1_00)
    apply (rule loss_derivative_b1_01)
    apply (rule loss_derivative_W2_00)
    apply (rule loss_derivative_W2_10)
    apply (rule loss_derivative_b2_00)
       apply (simp only: m2, rule W1g)
      apply (simp only: m2, rule b1g)
     apply (simp only: m2, rule W2g)
    apply (simp only: m2, rule b2g)
    apply (simp only: st, rule upd)
    done
qed

text \<open>
  C1. Take any pass of the training loop: pass \<open>n + 1\<close>, started from any parameters of
  the notebook's shapes, in exact real arithmetic. The loss that the pass computes,
  \<open>np.mean(np.square(y - final_output))\<close>, is the mean, over the four training samples, of
  the squared difference between the label and the output of the network. The pass computes \<open>d_output\<close> and \<open>d_hidden\<close> by the delta
  rule and the four gradients from them. Every entry of \<open>W1_grad\<close>, \<open>b1_grad\<close>,
  \<open>W2_grad\<close> and \<open>b2_grad\<close> is \<open>- 2\<close> times the partial derivative of that mean squared
  error by the corresponding entry of \<open>W1\<close>, \<open>b1\<close>, \<open>W2\<close>, \<open>b2\<close>, and the update
  \<open>theta += lr * theta_grad\<close> moves every entry against its partial derivative with step
  size \<open>2 * lr\<close>.
\<close>

theorem manual_gradients_are_minus_twice_loss_gradient:
  assumes "xor_shaped p0"
  shows "\<exists>p fo w11 w12 w21 w22 b11 b12 v1 v2 c g d11 d12 d21 d22 e1 e2 f1 f2 k.
       training_loop n X_xor y_xor lr (p0, None) = Some (p, fo)
       \<and> p = xor_params w11 w12 w21 w22 b11 b12 v1 v2 c
       \<and> epoch_body X_xor y_xor lr p = Some g
       \<and> training_loop (Suc n) X_xor y_xor lr (p0, None)
           = Some (updated g, Some (final_output g))
       \<and> final_output g = map (\<lambda>r. [network_output p r]) four_pairs
       \<and> broadcast (\<lambda>a b. of_int a - b) y_xor (final_output g) = Some (error g)
       \<and> mean (elementwise square (error g)) = Some (loss g)
       \<and> loss g = mean_squared_error X_xor y_xor p
       \<and> broadcast (*) (error g) (elementwise sigmoid_derivative (final_output g))
           = Some (d_output g)
       \<and> (\<exists>bk. dot (d_output g) (transpose (W2 p)) = Some bk
             \<and> broadcast (*) bk (elementwise sigmoid_derivative (hidden_output g))
                 = Some (d_hidden g))
       \<and> dot (transpose (hidden_output g)) (d_output g) = Some (W2_grad g)
       \<and> b2_grad g = sum_axis0 (d_output g)
       \<and> dot (transpose (elementwise of_int X_xor)) (d_hidden g) = Some (W1_grad g)
       \<and> b1_grad g = sum_axis0 (d_hidden g)
       \<and> ((\<lambda>u. mean_squared_error X_xor y_xor (xor_params u w12 w21 w22 b11 b12 v1 v2 c))
           has_real_derivative d11) (at w11)
       \<and> ((\<lambda>u. mean_squared_error X_xor y_xor (xor_params w11 u w21 w22 b11 b12 v1 v2 c))
           has_real_derivative d12) (at w12)
       \<and> ((\<lambda>u. mean_squared_error X_xor y_xor (xor_params w11 w12 u w22 b11 b12 v1 v2 c))
           has_real_derivative d21) (at w21)
       \<and> ((\<lambda>u. mean_squared_error X_xor y_xor (xor_params w11 w12 w21 u b11 b12 v1 v2 c))
           has_real_derivative d22) (at w22)
       \<and> ((\<lambda>u. mean_squared_error X_xor y_xor (xor_params w11 w12 w21 w22 u b12 v1 v2 c))
           has_real_derivative e1) (at b11)
       \<and> ((\<lambda>u. mean_squared_error X_xor y_xor (xor_params w11 w12 w21 w22 b11 u v1 v2 c))
           has_real_derivative e2) (at b12)
       \<and> ((\<lambda>u. mean_squared_error X_xor y_xor (xor_params w11 w12 w21 w22 b11 b12 u v2 c))
           has_real_derivative f1) (at v1)
       \<and> ((\<lambda>u. mean_squared_error X_xor y_xor (xor_params w11 w12 w21 w22 b11 b12 v1 u c))
           has_real_derivative f2) (at v2)
       \<and> ((\<lambda>u. mean_squared_error X_xor y_xor (xor_params w11 w12 w21 w22 b11 b12 v1 v2 u))
           has_real_derivative k) (at c)
       \<and> W1_grad g = [[- 2 * d11, - 2 * d12], [- 2 * d21, - 2 * d22]]
       \<and> b1_grad g = [[- 2 * e1, - 2 * e2]]
       \<and> W2_grad g = [[- 2 * f1], [- 2 * f2]]
       \<and> b2_grad g = [[- 2 * k]]
       \<and> updated g = xor_params
           (w11 - 2 * lr * d11) (w12 - 2 * lr * d12) (w21 - 2 * lr * d21) (w22 - 2 * lr * d22) (b11 - 2 * lr * e1) (b12 - 2 * lr * e2) (v1 - 2 * lr * f1) (v2 - 2 * lr * f2) (c - 2 * lr * k)"
proof -
  from training_loop_completes [of "(p0, None)" n lr] assms
  obtain p fo where loop: "training_loop n X_xor y_xor lr (p0, None) = Some (p, fo)"
    and "xor_shaped p"
    by auto
  then obtain w11 w12 w21 w22 b11 b12 v1 v2 c
    where p: "p = xor_params w11 w12 w21 w22 b11 b12 v1 v2 c"
    by (auto elim: xor_shaped_params)
  from epoch_body_gradients [of lr w11 w12 w21 w22 b11 b12 v1 v2 c]
  obtain g d11 d12 d21 d22 e1 e2 f1 f2 k where all: "epoch_body X_xor y_xor lr (xor_params w11 w12 w21 w22 b11 b12 v1 v2 c) = Some g
      \<and> ((\<lambda>u. mean_squared_error X_xor y_xor (xor_params u w12 w21 w22 b11 b12 v1 v2 c))
          has_real_derivative d11) (at w11)
      \<and> ((\<lambda>u. mean_squared_error X_xor y_xor (xor_params w11 u w21 w22 b11 b12 v1 v2 c))
          has_real_derivative d12) (at w12)
      \<and> ((\<lambda>u. mean_squared_error X_xor y_xor (xor_params w11 w12 u w22 b11 b12 v1 v2 c))
          has_real_derivative d21) (at w21)
      \<and> ((\<lambda>u. mean_squared_error X_xor y_xor (xor_params w11 w12 w21 u b11 b12 v1 v2 c))
          has_real_derivative d22) (at w22)
      \<and> ((\<lambda>u. mean_squared_error X_xor y_xor (xor_params w11 w12 w21 w22 u b12 v1 v2 c))
          has_real_derivative e1) (at b11)
      \<and> ((\<lambda>u. mean_squared_error X_xor y_xor (xor_params w11 w12 w21 w22 b11 u v1 v2 c))
          has_real_derivative e2) (at b12)
      \<and> ((\<lambda>u. mean_squared_error X_xor y_xor (xor_params w11 w12 w21 w22 b11 b12 u v2 c))
          has_real_derivative f1) (at v1)
      \<and> ((\<lambda>u. mean_squared_error X_xor y_xor (xor_params w11 w12 w21 w22 b11 b12 v1 u c))
          has_real_derivative f2) (at v2)
      \<and> ((\<lambda>u. mean_squared_error X_xor y_xor (xor_params w11 w12 w21 w22 b11 b12 v1 v2 u))
          has_real_derivative k) (at c)
      \<and> W1_grad g = [[- 2 * d11, - 2 * d12], [- 2 * d21, - 2 * d22]]
      \<and> b1_grad g = [[- 2 * e1, - 2 * e2]]
      \<and> W2_grad g = [[- 2 * f1], [- 2 * f2]]
      \<and> b2_grad g = [[- 2 * k]]
      \<and> updated g = xor_params
          (w11 - 2 * lr * d11) (w12 - 2 * lr * d12) (w21 - 2 * lr * d21) (w22 - 2 * lr * d22) (b11 - 2 * lr * e1) (b12 - 2 * lr * e2) (v1 - 2 * lr * f1) (v2 - 2 * lr * f2) (c - 2 * lr * k)"
    by (elim exE) (rule that)
  from all have g: "epoch_body X_xor y_xor lr p = Some g"
    unfolding p by (rule conjunct1)
  from all have rest: "((\<lambda>u. mean_squared_error X_xor y_xor (xor_params u w12 w21 w22 b11 b12 v1 v2 c))
          has_real_derivative d11) (at w11)
      \<and> ((\<lambda>u. mean_squared_error X_xor y_xor (xor_params w11 u w21 w22 b11 b12 v1 v2 c))
          has_real_derivative d12) (at w12)
      \<and> ((\<lambda>u. mean_squared_error X_xor y_xor (xor_params w11 w12 u w22 b11 b12 v1 v2 c))
          has_real_derivative d21) (at w21)
      \<and> ((\<lambda>u. mean_squared_error X_xor y_xor (xor_params w11 w12 w21 u b11 b12 v1 v2 c))
          has_real_derivative d22) (at w22)
      \<and> ((\<lambda>u. mean_squared_error X_xor y_xor (xor_params w11 w12 w21 w22 u b12 v1 v2 c))
          has_real_derivative e1) (at b11)
      \<and> ((\<lambda>u. mean_squared_error X_xor y_xor (xor_params w11 w12 w21 w22 b11 u v1 v2 c))
          has_real_derivative e2) (at b12)
      \<and> ((\<lambda>u. mean_squared_error X_xor y_xor (xor_params w11 w12 w21 w22 b11 b12 u v2 c))
          has_real_derivative f1) (at v1)
      \<and> ((\<lambda>u. mean_squared_error X_xor y_xor (xor_params w11 w12 w21 w22 b11 b12 v1 u c))
          has_real_derivative f2) (at v2)
      \<and> ((\<lambda>u. mean_squared_error X_xor y_xor (xor_params w11 w12 w21 w22 b11 b12 v1 v2 u))
          has_real_derivative k) (at c)
      \<and> W1_grad g = [[- 2 * d11, - 2 * d12], [- 2 * d21, - 2 * d22]]
      \<and> b1_grad g = [[- 2 * e1, - 2 * e2]]
      \<and> W2_grad g = [[- 2 * f1], [- 2 * f2]]
      \<and> b2_grad g = [[- 2 * k]]
      \<and> updated g = xor_params
          (w11 - 2 * lr * d11) (w12 - 2 * lr * d12) (w21 - 2 * lr * d21) (w22 - 2 * lr * d22) (b11 - 2 * lr * e1) (b12 - 2 * lr * e2) (v1 - 2 * lr * f1) (v2 - 2 * lr * f2) (c - 2 * lr * k)"
    by (rule conjunct2)
  have last: "training_loop (Suc n) X_xor y_xor lr (p0, None)
        = Some (updated g, Some (final_output g))"
    using loop g by (simp add: training_loop_last_pass del: training_loop.simps)
  have fout: "final_output g = map (\<lambda>r. [network_output p r]) four_pairs"
    using epoch_body_final_output [of lr w11 w12 w21 w22 b11 b12 v1 v2 c] g
    unfolding p by simp
  from epoch_body_loss_value [OF g]
  have errf: "broadcast (\<lambda>a b. of_int a - b) y_xor (final_output g) = Some (error g)"
    and meanf: "mean (elementwise square (error g)) = Some (loss g)"
    by simp_all
  have lossf: "loss g = mean_squared_error X_xor y_xor p"
    using epoch_body_loss [of lr w11 w12 w21 w22 b11 b12 v1 v2 c] g unfolding p by simp
  from epoch_body_backward [OF g]
  obtain xw hidden_input hw final_input bk where
    dl1: "broadcast (*) (error g) (elementwise sigmoid_derivative (final_output g))
          = Some (d_output g)"
    and bk: "dot (d_output g) (transpose (W2 p)) = Some bk"
      "broadcast (*) bk (elementwise sigmoid_derivative (hidden_output g)) = Some (d_hidden g)"
    and dl3: "dot (transpose (hidden_output g)) (d_output g) = Some (W2_grad g)"
    and dl4: "b2_grad g = sum_axis0 (d_output g)"
    and dl5: "dot (transpose (elementwise of_int X_xor)) (d_hidden g) = Some (W1_grad g)"
    and dl6: "b1_grad g = sum_axis0 (d_hidden g)"
    by (elim exE conjE) (rule that)
  from bk have dl2: "(\<exists>bk. dot (d_output g) (transpose (W2 p)) = Some bk
            \<and> broadcast (*) bk (elementwise sigmoid_derivative (hidden_output g))
                = Some (d_hidden g))"
    by blast
  show ?thesis
    apply (rule exI [of _ p])
    apply (rule exI [of _ fo])
    apply (rule exI [of _ w11])
    apply (rule exI [of _ w12])
    apply (rule exI [of _ w21])
    apply (rule exI [of _ w22])
    apply (rule exI [of _ b11])
    apply (rule exI [of _ b12])
    apply (rule exI [of _ v1])
    apply (rule exI [of _ v2])
    apply (rule exI [of _ c])
    apply (rule exI [of _ g])
    apply (rule exI [of _ d11])
    apply (rule exI [of _ d12])
    apply (rule exI [of _ d21])
    apply (rule exI [of _ d22])
    apply (rule exI [of _ e1])
    apply (rule exI [of _ e2])
    apply (rule exI [of _ f1])
    apply (rule exI [of _ f2])
    apply (rule exI [of _ k])
    apply (rule conjI [OF loop conjI [OF p conjI [OF g conjI [OF last conjI [OF fout conjI [OF errf conjI [OF meanf conjI [OF lossf conjI [OF dl1 conjI [OF dl2 conjI [OF dl3 conjI [OF dl4 conjI [OF dl5 conjI [OF dl6 rest]]]]]]]]]]]]]])
    done
qed

theorem manual_gradients_are_minus_twice_loss_gradient_witness:
  "xor_shaped (xor_params 0 0 0 0 0 0 1 0 (ln 3 - 1 / 2))
   \<and> (\<exists>g. epoch_body X_xor y_xor (1 / 2) (xor_params 0 0 0 0 0 0 1 0 (ln 3 - 1 / 2)) = Some g
        \<and> training_loop (Suc 0) X_xor y_xor (1 / 2) (xor_params 0 0 0 0 0 0 1 0 (ln 3 - 1 / 2), None)
            = Some (updated g, Some (final_output g))
        \<and> final_output g = [[3 / 4], [3 / 4], [3 / 4], [3 / 4]]
        \<and> loss g = 5 / 16
        \<and> mean_squared_error X_xor y_xor (xor_params 0 0 0 0 0 0 1 0 (ln 3 - 1 / 2)) = 5 / 16
        \<and> W1_grad g = [[- 3 / 128, 0], [- 3 / 128, 0]]
        \<and> b1_grad g = [[- 3 / 64, 0]]
        \<and> W2_grad g = [[- 3 / 32], [- 3 / 32]]
        \<and> b2_grad g = [[- 3 / 16]]
        \<and> ((\<lambda>u. mean_squared_error X_xor y_xor (xor_params u 0 0 0 0 0 1 0 (ln 3 - 1 / 2)))
          has_real_derivative (3 / 256)) (at 0)
        \<and> ((\<lambda>u. mean_squared_error X_xor y_xor (xor_params 0 0 0 0 u 0 1 0 (ln 3 - 1 / 2)))
          has_real_derivative (3 / 128)) (at 0)
        \<and> ((\<lambda>u. mean_squared_error X_xor y_xor (xor_params 0 0 0 0 0 0 u 0 (ln 3 - 1 / 2)))
          has_real_derivative (3 / 64)) (at 1)
        \<and> ((\<lambda>u. mean_squared_error X_xor y_xor (xor_params 0 0 0 0 0 0 1 0 u))
          has_real_derivative (3 / 32)) (at (ln 3 - 1 / 2))
        \<and> updated g = xor_params (- 3 / 256) 0 (- 3 / 256) 0 (- 3 / 128) 0
                         (61 / 64) (- 3 / 64) (ln 3 - 19 / 32))"
proof -
  let ?z = "xor_params 0 0 0 0 0 0 1 0 (ln 3 - 1 / 2)"
  have sh: "xor_shaped ?z"
    by simp
  from manual_gradients_are_minus_twice_loss_gradient [OF sh, where n = 0 and lr = "1 / 2"]
  obtain p fo w11 w12 w21 w22 b11 b12 v1 v2 c g d11 d12 d21 d22 e1 e2 f1 f2 k where all:
    "training_loop 0 X_xor y_xor (1 / 2) (?z, None) = Some (p, fo)
       \<and> p = xor_params w11 w12 w21 w22 b11 b12 v1 v2 c
       \<and> epoch_body X_xor y_xor (1 / 2) p = Some g
       \<and> training_loop (Suc 0) X_xor y_xor (1 / 2) (?z, None)
           = Some (updated g, Some (final_output g))
       \<and> final_output g = map (\<lambda>r. [network_output p r]) four_pairs
       \<and> broadcast (\<lambda>a b. of_int a - b) y_xor (final_output g) = Some (error g)
       \<and> mean (elementwise square (error g)) = Some (loss g)
       \<and> loss g = mean_squared_error X_xor y_xor p
       \<and> broadcast (*) (error g) (elementwise sigmoid_derivative (final_output g))
           = Some (d_output g)
       \<and> (\<exists>bk. dot (d_output g) (transpose (W2 p)) = Some bk
             \<and> broadcast (*) bk (elementwise sigmoid_derivative (hidden_output g))
                 = Some (d_hidden g))
       \<and> dot (transpose (hidden_output g)) (d_output g) = Some (W2_grad g)
       \<and> b2_grad g = sum_axis0 (d_output g)
       \<and> dot (transpose (elementwise of_int X_xor)) (d_hidden g) = Some (W1_grad g)
       \<and> b1_grad g = sum_axis0 (d_hidden g)
       \<and> ((\<lambda>u. mean_squared_error X_xor y_xor (xor_params u w12 w21 w22 b11 b12 v1 v2 c))
           has_real_derivative d11) (at w11)
       \<and> ((\<lambda>u. mean_squared_error X_xor y_xor (xor_params w11 u w21 w22 b11 b12 v1 v2 c))
           has_real_derivative d12) (at w12)
       \<and> ((\<lambda>u. mean_squared_error X_xor y_xor (xor_params w11 w12 u w22 b11 b12 v1 v2 c))
           has_real_derivative d21) (at w21)
       \<and> ((\<lambda>u. mean_squared_error X_xor y_xor (xor_params w11 w12 w21 u b11 b12 v1 v2 c))
           has_real_derivative d22) (at w22)
       \<and> ((\<lambda>u. mean_squared_error X_xor y_xor (xor_params w11 w12 w21 w22 u b12 v1 v2 c))
           has_real_derivative e1) (at b11)
       \<and> ((\<lambda>u. mean_squared_error X_xor y_xor (xor_params w11 w12 w21 w22 b11 u v1 v2 c))
           has_real_derivative e2) (at b12)
       \<and> ((\<lambda>u. mean_squared_error X_xor y_xor (xor_params w11 w12 w21 w22 b11 b12 u v2 c))
           has_real_derivative f1) (at v1)
       \<and> ((\<lambda>u. mean_squared_error X_xor y_xor (xor_params w11 w12 w21 w22 b11 b12 v1 u c))
           has_real_derivative f2) (at v2)
       \<and> ((\<lambda>u. mean_squared_error X_xor y_xor (xor_params w11 w12 w21 w22 b11 b12 v1 v2 u))
           has_real_derivative k) (at c)
       \<and> W1_grad g = [[- 2 * d11, - 2 * d12], [- 2 * d21, - 2 * d22]]
       \<and> b1_grad g = [[- 2 * e1, - 2 * e2]]
       \<and> W2_grad g = [[- 2 * f1], [- 2 * f2]]
       \<and> b2_grad g = [[- 2 * k]]
       \<and> updated g = xor_params
           (w11 - 2 * (1 / 2) * d11) (w12 - 2 * (1 / 2) * d12) (w21 - 2 * (1 / 2) * d21) (w22 - 2 * (1 / 2) * d22) (b11 - 2 * (1 / 2) * e1) (b12 - 2 * (1 / 2) * e2) (v1 - 2 * (1 / 2) * f1) (v2 - 2 * (1 / 2) * f2) (c - 2 * (1 / 2) * k)"
    by (elim exE) (rule that)
  from all have loop: "training_loop 0 X_xor y_xor (1 / 2) (?z, None) = Some (p, fo)"
    by (elim conjE)
  from all have p: "p = xor_params w11 w12 w21 w22 b11 b12 v1 v2 c"
    by (elim conjE)
  from all have g: "epoch_body X_xor y_xor (1 / 2) p = Some g"
    by (elim conjE)
  from all have last: "training_loop (Suc 0) X_xor y_xor (1 / 2) (?z, None)
      = Some (updated g, Some (final_output g))"
    by (elim conjE)
  from all have lossf: "loss g = mean_squared_error X_xor y_xor p"
    by (elim conjE)
  from all have pd1: "((\<lambda>u. mean_squared_error X_xor y_xor (xor_params u w12 w21 w22 b11 b12 v1 v2 c))
          has_real_derivative d11) (at w11)"
    by (elim conjE)
  from all have pd5: "((\<lambda>u. mean_squared_error X_xor y_xor (xor_params w11 w12 w21 w22 u b12 v1 v2 c))
          has_real_derivative e1) (at b11)"
    by (elim conjE)
  from all have pd7: "((\<lambda>u. mean_squared_error X_xor y_xor (xor_params w11 w12 w21 w22 b11 b12 u v2 c))
          has_real_derivative f1) (at v1)"
    by (elim conjE)
  from all have pd9: "((\<lambda>u. mean_squared_error X_xor y_xor (xor_params w11 w12 w21 w22 b11 b12 v1 v2 u))
          has_real_derivative k) (at c)"
    by (elim conjE)
  from all have gr1: "W1_grad g = [[- 2 * d11, - 2 * d12], [- 2 * d21, - 2 * d22]]"
    by (elim conjE)
  from all have gr2: "b1_grad g = [[- 2 * e1, - 2 * e2]]"
    by (elim conjE)
  from all have gr3: "W2_grad g = [[- 2 * f1], [- 2 * f2]]"
    by (elim conjE)
  from all have gr4: "b2_grad g = [[- 2 * k]]"
    by (elim conjE)
  from loop have pz: "p = ?z" by simp
  with p have e: "w11 = 0" "w12 = 0" "w21 = 0" "w22 = 0" "b11 = 0" "b12 = 0"
    "v1 = 1" "v2 = 0" "c = ln 3 - 1 / 2"
    by (simp_all add: xor_params_def)
  from g have g0: "epoch_body X_xor y_xor (1 / 2) ?z = Some g"
    unfolding pz .
  from g0 have v: "final_output g = [[3 / 4], [3 / 4], [3 / 4], [3 / 4]]"
    "loss g = 5 / 16"
    "W1_grad g = [[- 3 / 128, 0], [- 3 / 128, 0]]"
    "b1_grad g = [[- 3 / 64, 0]]"
    "W2_grad g = [[- 3 / 32], [- 3 / 32]]"
    "b2_grad g = [[- 3 / 16]]"
    "updated g = xor_params (- 3 / 256) 0 (- 3 / 256) 0 (- 3 / 128) 0
                         (61 / 64) (- 3 / 64) (ln 3 - 19 / 32)"
    by (auto simp: unfold_np xor_params_def sigmoid_zero sigmoid_ln_3 sigmoid_derivative_def
        square_def)
  from lossf v(2) have ms: "mean_squared_error X_xor y_xor ?z = 5 / 16"
    unfolding pz by simp
  from gr1 gr2 gr3 gr4 v have d: "d11 = 3 / 256" "e1 = 3 / 128" "f1 = 3 / 64" "k = 3 / 32"
    by simp_all
  note pds = pd1 [unfolded e d] pd5 [unfolded e d] pd7 [unfolded e d] pd9 [unfolded e d]
  show ?thesis
    apply (rule conjI [OF sh])
    apply (rule exI [of _ g])
    apply (intro conjI)
    apply (rule g0 last v ms pds)+
    done
qed

end
